theory Spec2Isabelle
  imports Complex_Main
begin

section \<open>Session data (interface UserAnalytics)\<close>

text \<open>
  The client-side analytics engine of the storefront (class Analytics and the global
  abandonment sweep). JavaScript numbers that hold timestamps, counters and quantities
  are integers here; prices are rationals, so that products are exact. An optional
  field (\<open>name?: T\<close>, or a value that may be \<open>null\<close>) is an \<open>option\<close>.
\<close>

datatype cart_event_type = Add | Remove | Update | Clear | Complete | Abandon

record category_visit =
  cv_name :: string
  cv_visits :: int
  cv_lastVisit :: int
  cv_hasCartItems :: "bool option"
  cv_categoryId :: "string option"

record search_term =
  st_term :: string
  st_count :: int
  st_lastSearch :: int

record product_view =
  pv_id :: string
  pv_name :: string
  pv_category :: string
  pv_visits :: int
  pv_lastView :: int
  pv_addedToCart :: "bool option"

record cart_event =
  ce_type :: cart_event_type
  ce_productId :: string
  ce_productName :: "string option"
  ce_quantity :: int
  ce_unitPrice :: "rat option"
  ce_totalPrice :: "rat option"
  ce_timestamp :: int

record UserAnalytics =
  sessionId :: string
  startTime :: int
  lastActivity :: int
  timeOnSite :: int
  categoriesVisited :: "category_visit list"
  searchTerms :: "search_term list"
  productsViewed :: "product_view list"
  cartEvents :: "cart_event list"
  lastCartActivity :: int
  whatsappCollected :: "string option"
  whatsappCollectedAt :: "int option"

section \<open>Browser storage, timers and recorded effects\<close>

text \<open>
  What \<open>localStorage.getItem\<close> returns is \<open>None\<close> for a missing key and otherwise a
  string, which is the empty string (falsy), a text that \<open>JSON.parse\<close> rejects, or the
  JSON text of a document of the expected shape.
\<close>

datatype 'a stored = Empty_string | Malformed | Json 'a

datatype error = SyntaxError | QuotaExceededError

record cart_item =
  ci_productId :: string
  ci_quantity :: int
  ci_image :: "string option"

datatype cart_state = Cart_state (items: "cart_item list option")

datatype cart_doc = Cart_doc (state: "cart_state option")

record queue_item =
  qi_sessionId :: string
  qi_timestamp :: int
  qi_data :: UserAnalytics
  qi_retries :: nat

text \<open>The \<open>data\<close> object of a cartAbandoned webhook.\<close>

record abandoned_data =
  ab_cartItems :: "cart_item list"
  ab_abandonedAt :: int
  ab_timeSinceLastActivity :: int
  ab_sessionId :: string
  ab_whatsappCollected :: "string option"

text \<open>A pending \<open>setTimeout\<close>: when it was set and its delay, both in milliseconds.\<close>

record timeout =
  set_at :: int
  delay :: int

text \<open>
  The world of one browser tab: the fields of the Analytics singleton, the three
  \<open>localStorage\<close> keys the engine reads and writes, whether \<open>setItem\<close> raises
  (storage quota exhausted), whether \<open>window\<close> is defined, and the effects issued so
  far, oldest first: calls of \<open>sendWebhook\<close> (event type and data), requests of the
  sweep to the automation endpoint (URL and data), and the \<open>lastActivity\<close> field of
  each cart snapshot pushed to \<open>/api/cart/simple-update\<close>.
\<close>

record world =
  analytics :: UserAnalytics
  cartAbandonTimer :: "timeout option"
  serverSaveTimeout :: "timeout option"
  saveToServerRetryCount :: nat
  ls_analytics :: "UserAnalytics stored option"
  ls_cart :: "cart_doc stored option"
  ls_queue :: "queue_item list stored option"
  ls_full :: bool
  window :: bool
  webhooks :: "(string \<times> abandoned_data) list"
  sweep_posts :: "(string \<times> abandoned_data) list"
  cart_pushes :: "int list"

text \<open>
  A method that may raise returns the exception, if any, beside the world as the
  exception leaves it: what was assigned before the \<open>throw\<close> stays assigned.
\<close>

type_synonym outcome = "error option \<times> world"

section \<open>Local session store\<close>

definition createNewSession :: "string \<Rightarrow> int \<Rightarrow> UserAnalytics" where
  "createNewSession sid now =
     \<lparr> sessionId = sid, startTime = now, lastActivity = now, timeOnSite = 0,
       categoriesVisited = [], searchTerms = [], productsViewed = [], cartEvents = [],
       lastCartActivity = 0, whatsappCollected = None, whatsappCollectedAt = None \<rparr>"

text \<open>
  \<open>loadAnalytics\<close>; \<open>sid\<close> is what \<open>generateSessionId\<close> would return and \<open>now\<close> is
  \<open>Date.now()\<close>. \<open>JSON.parse\<close> is not guarded here.
\<close>

definition loadAnalytics :: "string \<Rightarrow> int \<Rightarrow> world \<Rightarrow> error + UserAnalytics" where
  "loadAnalytics sid now w =
     (if \<not> window w then Inr (createNewSession sid now)
      else case ls_analytics w of
        None \<Rightarrow> Inr (createNewSession sid now)
      | Some Empty_string \<Rightarrow> Inr (createNewSession sid now)
      | Some Malformed \<Rightarrow> Inl SyntaxError
      | Some (Json parsed) \<Rightarrow>
          if now - lastActivity parsed > 24 * 60 * 60 * 1000
          then Inr (createNewSession sid now)
          else Inr parsed)"

definition debouncedServerSave :: "int \<Rightarrow> world \<Rightarrow> world" where
  "debouncedServerSave now w = w\<lparr> serverSaveTimeout := Some \<lparr> set_at = now, delay = 2000 \<rparr> \<rparr>"

definition saveAnalytics :: "int \<Rightarrow> world \<Rightarrow> outcome" where
  "saveAnalytics now w =
     (if window w then
        (if ls_full w then (Some QuotaExceededError, w)
         else (None, debouncedServerSave now (w\<lparr> ls_analytics := Some (Json (analytics w)) \<rparr>)))
      else (None, w))"

definition updateLastActivity :: "int \<Rightarrow> world \<Rightarrow> outcome" where
  "updateLastActivity now w =
     saveAnalytics now
       (w\<lparr> analytics := (analytics w)\<lparr> lastActivity := now,
                                        timeOnSite := now - startTime (analytics w) \<rparr> \<rparr>)"

section \<open>Cart abandonment detector\<close>

definition CART_ABANDON_TIME :: int where
  "CART_ABANDON_TIME = 1 * 60 * 1000"

definition removeImagesFromCartItems :: "cart_item list \<Rightarrow> cart_item list" where
  "removeImagesFromCartItems cartItems = map (\<lambda>item. item\<lparr> ci_image := None \<rparr>) cartItems"

text \<open>\<open>cart.state?.items\<close>: undefined when either level is missing.\<close>

definition state_items :: "cart_doc \<Rightarrow> cart_item list option" where
  "state_items cart = (case state cart of None \<Rightarrow> None | Some s \<Rightarrow> items s)"

text \<open>
  \<open>sendCartAbandonedWebhook\<close>. The call of the asynchronous \<open>sendWebhook\<close> is recorded in
  \<open>webhooks\<close>; its delivery is the dispatcher's business (below) and is not awaited.
\<close>

definition sendCartAbandonedWebhook :: "int \<Rightarrow> world \<Rightarrow> world" where
  "sendCartAbandonedWebhook now w =
     (if window w then
        (case ls_cart w of
           None \<Rightarrow> w
         | Some Empty_string \<Rightarrow> w
         | Some Malformed \<Rightarrow> w
         | Some (Json cart) \<Rightarrow>
             (case state_items cart of
                None \<Rightarrow> w
              | Some its \<Rightarrow>
                  if length its > 0 then
                    w\<lparr> webhooks := webhooks w @
                         [(''cartAbandoned'',
                           \<lparr> ab_cartItems = removeImagesFromCartItems its,
                             ab_abandonedAt = now,
                             ab_timeSinceLastActivity =
                               (if lastCartActivity (analytics w) > 0
                                then now - lastCartActivity (analytics w) else 0),
                             ab_sessionId = sessionId (analytics w),
                             ab_whatsappCollected = whatsappCollected (analytics w) \<rparr>)] \<rparr>
                  else w))
      else w)"

text \<open>
  \<open>checkForAbandonedCart\<close>, the one-shot check of the constructor. Its body is one
  \<open>try\<close> block whose \<open>catch\<close> only logs, so it never raises; an exception of
  \<open>saveAnalytics\<close> leaves the reset of \<open>lastCartActivity\<close> in place.
\<close>

definition checkForAbandonedCart :: "int \<Rightarrow> world \<Rightarrow> world" where
  "checkForAbandonedCart now w =
     (if \<not> window w then w
      else case ls_cart w of
        None \<Rightarrow> w
      | Some Empty_string \<Rightarrow> w
      | Some Malformed \<Rightarrow> w
      | Some (Json cart) \<Rightarrow>
          (case state_items cart of
             None \<Rightarrow> w
           | Some its \<Rightarrow>
               if length its = 0 then w
               else if lastCartActivity (analytics w) = 0 then w
               else if now - lastCartActivity (analytics w) \<ge> CART_ABANDON_TIME then
                 (let w1 = sendCartAbandonedWebhook now w;
                      w2 = w1\<lparr> analytics := (analytics w1)\<lparr> lastCartActivity := 0 \<rparr> \<rparr>
                  in snd (saveAnalytics now w2))
               else w))"

text \<open>
  \<open>setupCartAbandonTimer\<close>. \<open>clearTimeout\<close> cancels the pending callback; when the
  remaining time is not positive the source only logs that no timer is configured.
\<close>

definition setupCartAbandonTimer :: "int \<Rightarrow> world \<Rightarrow> world" where
  "setupCartAbandonTimer now w =
     (let w1 = w\<lparr> cartAbandonTimer := None \<rparr> in
      if lastCartActivity (analytics w1) > 0 then
        (let timeSinceLastCart = now - lastCartActivity (analytics w1);
             remainingTime = CART_ABANDON_TIME - timeSinceLastCart
         in if remainingTime > 0
            then w1\<lparr> cartAbandonTimer := Some \<lparr> set_at = now, delay = remainingTime \<rparr> \<rparr>
            else w1)
      else w1)"

text \<open>The callback handed to \<open>setTimeout\<close> by \<open>setupCartAbandonTimer\<close>.\<close>

definition cartAbandonTimerCallback :: "int \<Rightarrow> world \<Rightarrow> outcome" where
  "cartAbandonTimerCallback now w =
     (let w1 = sendCartAbandonedWebhook now w;
          w2 = w1\<lparr> analytics := (analytics w1)\<lparr> lastCartActivity := 0 \<rparr> \<rparr>
      in saveAnalytics now w2)"

text \<open>
  The event loop runs the callback of a pending timer once, when its delay has passed;
  with no pending timer, or before it is due, nothing runs.
\<close>

definition fireCartAbandonTimer :: "int \<Rightarrow> world \<Rightarrow> outcome" where
  "fireCartAbandonTimer now w =
     (case cartAbandonTimer w of
        None \<Rightarrow> (None, w)
      | Some t \<Rightarrow>
          if now \<ge> set_at t + delay t
          then cartAbandonTimerCallback now (w\<lparr> cartAbandonTimer := None \<rparr>)
          else (None, w))"

section \<open>Event recorders\<close>

text \<open>
  Every recorder starts with \<open>updateLastActivity\<close>. The recorders modelled are those of
  category visits, product views and cart events; \<open>trackSearch\<close>,
  \<open>trackWhatsAppCollection\<close> and \<open>trackOrderCompletion\<close> start with the same call. One
  synchronous call is given one reading \<open>now\<close> of the clock.
\<close>

text \<open>
  \<open>xs.find(P)\<close> followed by an assignment to a field of the element found: the first
  element that satisfies \<open>P\<close> is changed in place, when there is one.
\<close>

fun update_first :: "('a \<Rightarrow> bool) \<Rightarrow> ('a \<Rightarrow> 'a) \<Rightarrow> 'a list \<Rightarrow> 'a list" where
  "update_first P f [] = []"
| "update_first P f (x # xs) = (if P x then f x # xs else x # update_first P f xs)"

text \<open>\<open>xs.slice(-n)\<close>: the last \<open>n\<close> elements, all of them when there are fewer.\<close>

definition slice_last :: "nat \<Rightarrow> 'a list \<Rightarrow> 'a list" where
  "slice_last n xs = drop (length xs - n) xs"

text \<open>
  \<open>trackCategoryVisit\<close>. \<open>Array.prototype.sort\<close> is stable, as \<open>sort_key\<close> is; the
  comparator \<open>b.visits - a.visits\<close> orders by visits, descending.
\<close>

definition trackCategoryVisit :: "string \<Rightarrow> string option \<Rightarrow> int \<Rightarrow> world \<Rightarrow> outcome" where
  "trackCategoryVisit categoryName categoryId now w =
     (case updateLastActivity now w of
        (Some e, w1) \<Rightarrow> (Some e, w1)
      | (None, w1) \<Rightarrow>
          (let cats = categoriesVisited (analytics w1);
               cats' =
                 (case find (\<lambda>c. cv_name c = categoryName) cats of
                    Some existing \<Rightarrow>
                      update_first (\<lambda>c. cv_name c = categoryName)
                        (\<lambda>c. c\<lparr> cv_visits := cv_visits c + 1, cv_lastVisit := now,
                                cv_categoryId :=
                                  (case categoryId of
                                     None \<Rightarrow> cv_categoryId c
                                   | Some i \<Rightarrow> if i = [] then cv_categoryId c else Some i) \<rparr>)
                        cats
                  | None \<Rightarrow>
                      cats @ [\<lparr> cv_name = categoryName, cv_visits = 1, cv_lastVisit = now,
                                cv_hasCartItems = Some False, cv_categoryId = categoryId \<rparr>]);
               sorted_cats = sort_key (\<lambda>c. - cv_visits c) cats'
           in saveAnalytics now
                (w1\<lparr> analytics := (analytics w1)\<lparr> categoriesVisited := sorted_cats \<rparr> \<rparr>)))"

definition trackProductView :: "string \<Rightarrow> string \<Rightarrow> string \<Rightarrow> int \<Rightarrow> world \<Rightarrow> outcome" where
  "trackProductView productId productName category now w =
     (case updateLastActivity now w of
        (Some e, w1) \<Rightarrow> (Some e, w1)
      | (None, w1) \<Rightarrow>
          (let prods = productsViewed (analytics w1);
               prods' =
                 (case find (\<lambda>p. pv_id p = productId) prods of
                    Some existing \<Rightarrow>
                      update_first (\<lambda>p. pv_id p = productId)
                        (\<lambda>p. p\<lparr> pv_visits := pv_visits p + 1, pv_lastView := now \<rparr>) prods
                  | None \<Rightarrow>
                      prods @ [\<lparr> pv_id = productId, pv_name = productName,
                                 pv_category = category, pv_visits = 1, pv_lastView = now,
                                 pv_addedToCart = Some False \<rparr>]);
               top = take 50 (sort_key (\<lambda>p. - pv_visits p) prods')
           in saveAnalytics now
                (w1\<lparr> analytics := (analytics w1)\<lparr> productsViewed := top \<rparr> \<rparr>)))"

text \<open>
  \<open>saveCartToServer\<close>: a fire-and-forget request when the cart key holds a parseable
  document; everything is inside a \<open>try\<close> whose \<open>catch\<close> only warns.
\<close>

definition saveCartToServer :: "world \<Rightarrow> world" where
  "saveCartToServer w =
     (if \<not> window w then w
      else case ls_cart w of
        None \<Rightarrow> w
      | Some Empty_string \<Rightarrow> w
      | Some Malformed \<Rightarrow> w
      | Some (Json cartData) \<Rightarrow>
          w\<lparr> cart_pushes := cart_pushes w @ [lastCartActivity (analytics w)] \<rparr>)"

text \<open>
  The object literal pushed by \<open>trackCartEvent\<close>. \<open>unitPrice ? unitPrice * quantity :
  undefined\<close> tests the truthiness of the price: an absent price and the price 0 both
  give no total.
\<close>

definition cartEventOf ::
  "cart_event_type \<Rightarrow> string \<Rightarrow> int \<Rightarrow> string option \<Rightarrow> rat option \<Rightarrow> int \<Rightarrow> cart_event" where
  "cartEventOf type productId quantity productName unitPrice timestamp =
     \<lparr> ce_type = type, ce_productId = productId, ce_productName = productName,
       ce_quantity = quantity, ce_unitPrice = unitPrice,
       ce_totalPrice =
         (case unitPrice of
            None \<Rightarrow> None
          | Some p \<Rightarrow> if p = 0 then None else Some (p * of_int quantity)),
       ce_timestamp = timestamp \<rparr>"

text \<open>The flag updates of \<open>trackCartEvent\<close> for an event of type add.\<close>

definition markAddedToCart :: "string \<Rightarrow> UserAnalytics \<Rightarrow> UserAnalytics" where
  "markAddedToCart productId a =
     (let a1 = a\<lparr> productsViewed :=
                   update_first (\<lambda>p. pv_id p = productId)
                     (\<lambda>p. p\<lparr> pv_addedToCart := Some True \<rparr>) (productsViewed a) \<rparr>
      in case find (\<lambda>p. pv_id p = productId) (productsViewed a1) of
           None \<Rightarrow> a1
         | Some product \<Rightarrow>
             a1\<lparr> categoriesVisited :=
                   update_first (\<lambda>c. cv_name c = pv_category product)
                     (\<lambda>c. c\<lparr> cv_hasCartItems := Some True \<rparr>) (categoriesVisited a1) \<rparr>)"

definition trackCartEvent ::
  "cart_event_type \<Rightarrow> string \<Rightarrow> int \<Rightarrow> string option \<Rightarrow> rat option \<Rightarrow> int \<Rightarrow> world \<Rightarrow> outcome"
where
  "trackCartEvent type productId quantity productName unitPrice now w =
     (case updateLastActivity now w of
        (Some e, w1) \<Rightarrow> (Some e, w1)
      | (None, w1) \<Rightarrow>
          (let timestamp = now;
               a1 = analytics w1;
               a2 = a1\<lparr> cartEvents := cartEvents a1 @
                           [cartEventOf type productId quantity productName unitPrice timestamp],
                        lastCartActivity := timestamp \<rparr>;
               a3 = (if type = Add then markAddedToCart productId a2 else a2);
               a4 = a3\<lparr> cartEvents := slice_last 100 (cartEvents a3) \<rparr>
           in case saveAnalytics now (w1\<lparr> analytics := a4 \<rparr>) of
                (Some e, w2) \<Rightarrow> (Some e, w2)
              | (None, w2) \<Rightarrow> (None, saveCartToServer (setupCartAbandonTimer now w2))))"

text \<open>A run of cart events, each with its own clock reading; it stops at an exception.\<close>

record cart_call =
  cc_type :: cart_event_type
  cc_productId :: string
  cc_quantity :: int
  cc_productName :: "string option"
  cc_unitPrice :: "rat option"
  cc_now :: int

definition eventOfCall :: "cart_call \<Rightarrow> cart_event" where
  "eventOfCall c =
     cartEventOf (cc_type c) (cc_productId c) (cc_quantity c) (cc_productName c)
       (cc_unitPrice c) (cc_now c)"

fun trackCartEvents :: "cart_call list \<Rightarrow> world \<Rightarrow> outcome" where
  "trackCartEvents [] w = (None, w)"
| "trackCartEvents (c # cs) w =
     (case trackCartEvent (cc_type c) (cc_productId c) (cc_quantity c) (cc_productName c)
             (cc_unitPrice c) (cc_now c) w of
        (Some e, w1) \<Rightarrow> (Some e, w1)
      | (None, w1) \<Rightarrow> trackCartEvents cs w1)"

section \<open>Construction of the singleton\<close>

text \<open>
  \<open>new Analytics()\<close>: the field initialisers, then the constructor body. The queue
  processor it starts is asynchronous and reads and writes the queue key only.
\<close>

definition newAnalytics :: "string \<Rightarrow> int \<Rightarrow> world \<Rightarrow> outcome" where
  "newAnalytics sid now w =
     (case loadAnalytics sid now w of
        Inl e \<Rightarrow> (Some e, w)
      | Inr a \<Rightarrow>
          (let w0 = w\<lparr> analytics := a, cartAbandonTimer := None, serverSaveTimeout := None,
                       saveToServerRetryCount := 0 \<rparr>
           in case updateLastActivity now w0 of
                (Some e, w1) \<Rightarrow> (Some e, w1)
              | (None, w1) \<Rightarrow>
                  (None, setupCartAbandonTimer now (checkForAbandonedCart now w1))))"

text \<open>
  \<open>useAnalytics\<close> while no instance exists: without \<open>window\<close>, and when the constructor
  raises, the caller gets an object of no-op methods.
\<close>

datatype handle = Mock | Instance world

definition useAnalytics :: "string \<Rightarrow> int \<Rightarrow> world \<Rightarrow> handle" where
  "useAnalytics sid now w =
     (if \<not> window w then Mock
      else case newAnalytics sid now w of
        (Some e, w1) \<Rightarrow> Mock
      | (None, w1) \<Rightarrow> Instance w1)"

section \<open>Server sync engine\<close>

text \<open>\<open>s.includes(sub)\<close>: \<open>sub\<close> occurs in \<open>s\<close> as a contiguous run.\<close>

fun str_includes :: "string \<Rightarrow> string \<Rightarrow> bool" where
  "str_includes [] sub = (sub = [])"
| "str_includes (c # cs) sub = (take (length sub) (c # cs) = sub \<or> str_includes cs sub)"

text \<open>
  How the \<open>try\<close> block of \<open>saveAnalyticsToServer\<close> ends once the request is made: the
  response is ok, it is a 503 whose body carries the fallback flag, or an error reaches
  the \<open>catch\<close> (raised by \<open>fetch\<close>, by the abort, by reading the body, or built from a
  response that is not ok), given by its name and message.
\<close>

datatype sync_response = Saved | Fallback | Failed string string

datatype sync_action =
  Synced | Degraded | Retry_after int | Queued_after_failure | Queued_at_limit

definition MAX_SERVER_SAVE_RETRIES :: nat where
  "MAX_SERVER_SAVE_RETRIES = 3"

definition isNetworkError :: "string \<Rightarrow> string \<Rightarrow> bool" where
  "isNetworkError errorName errorMessage =
     (errorName = ''AbortError'' \<or> str_includes errorMessage ''fetch'' \<or>
      str_includes errorMessage ''network'' \<or> str_includes errorMessage ''timeout'')"

definition isServerError :: "string \<Rightarrow> bool" where
  "isServerError errorMessage = str_includes errorMessage ''5''"

text \<open>
  \<open>saveToLocalQueue\<close>: a missing or empty key reads as the empty queue; a key that does
  not parse, or a write that raises, is caught and logged, and nothing is stored.
\<close>

definition saveToLocalQueue :: "int \<Rightarrow> world \<Rightarrow> world" where
  "saveToLocalQueue now w =
     (if \<not> window w then w
      else case (case ls_queue w of
                   None \<Rightarrow> Some []
                 | Some Empty_string \<Rightarrow> Some []
                 | Some Malformed \<Rightarrow> None
                 | Some (Json q) \<Rightarrow> Some q) of
        None \<Rightarrow> w
      | Some queue \<Rightarrow>
          (let queueItem = \<lparr> qi_sessionId = sessionId (analytics w), qi_timestamp = now,
                              qi_data = analytics w, qi_retries = 0 \<rparr>;
               trimmedQueue = slice_last 50 (queue @ [queueItem])
           in if ls_full w then w else w\<lparr> ls_queue := Some (Json trimmedQueue) \<rparr>))"

text \<open>
  One run of \<open>saveAnalyticsToServer\<close>. At the retry limit no request is made and the
  response is not consulted. (After a success the source also starts the asynchronous
  queue processor, which does not touch the counter.) The result says what the run ended with; a retry is the
  next run, after the delay.
\<close>

definition saveAnalyticsToServer :: "sync_response \<Rightarrow> int \<Rightarrow> world \<Rightarrow> sync_action \<times> world" where
  "saveAnalyticsToServer resp now w =
     (if saveToServerRetryCount w \<ge> MAX_SERVER_SAVE_RETRIES
      then (Queued_at_limit, saveToLocalQueue now w)
      else case resp of
        Saved \<Rightarrow> (Synced, w\<lparr> saveToServerRetryCount := 0 \<rparr>)
      | Fallback \<Rightarrow> (Degraded, w\<lparr> saveToServerRetryCount := 0 \<rparr>)
      | Failed errorName errorMessage \<Rightarrow>
          (let w1 = w\<lparr> saveToServerRetryCount := saveToServerRetryCount w + 1 \<rparr> in
           if saveToServerRetryCount w1 < MAX_SERVER_SAVE_RETRIES \<and>
              (isNetworkError errorName errorMessage \<or> isServerError errorMessage)
           then (Retry_after (2 ^ saveToServerRetryCount w1 * 2500), w1)
           else (Queued_after_failure, saveToLocalQueue now w1)))"

text \<open>Consecutive runs, each with its response and clock reading.\<close>

fun syncRuns :: "(sync_response \<times> int) list \<Rightarrow> world \<Rightarrow> sync_action list \<times> world" where
  "syncRuns [] w = ([], w)"
| "syncRuns ((resp, now) # rs) w =
     (case saveAnalyticsToServer resp now w of
        (act, w1) \<Rightarrow> (case syncRuns rs w1 of (acts, w2) \<Rightarrow> (act # acts, w2)))"

section \<open>Webhook dispatcher\<close>

text \<open>
  The result of a \<open>fetch\<close>: it raises, the response is not ok, or it is ok with a body.
\<close>

datatype 'a fetched = Fetch_raises | Not_ok | Ok_body 'a

record webhook_setting =
  ws_webhookType :: string
  ws_enabled :: bool
  ws_environment :: string

record webhook_config =
  enabled :: bool
  environment :: string

record location =
  hostname :: string
  port :: string
  nodeEnv :: string

definition toLowerCase :: "string \<Rightarrow> string" where
  "toLowerCase s =
     map (\<lambda>c. case map_of (zip ''ABCDEFGHIJKLMNOPQRSTUVWXYZ'' ''abcdefghijklmnopqrstuvwxyz'') c of
                 None \<Rightarrow> c | Some l \<Rightarrow> l) s"

definition isDevelopment :: "location \<Rightarrow> bool" where
  "isDevelopment loc =
     (hostname loc = ''localhost'' \<or> hostname loc = ''127.0.0.1'' \<or>
      port loc = ''3000'' \<or> port loc = ''3001'' \<or> nodeEnv loc = ''development'')"

definition fallbackSettings :: "location \<Rightarrow> string \<Rightarrow> webhook_config option" where
  "fallbackSettings loc =
     (let c = (if isDevelopment loc
               then \<lparr> enabled = False, environment = ''test'' \<rparr>
               else \<lparr> enabled = True, environment = ''production'' \<rparr>)
      in map_of [(''whatsappCollected'', c), (''orderCompleted'', c),
                 (''cartAbandoned'', c), (''analyticsUpdate'', c)])"

text \<open>
  The object built by \<open>dbSettings.forEach\<close>: a later entry of a type replaces an
  earlier one.
\<close>

definition convertSettings :: "webhook_setting list \<Rightarrow> string \<Rightarrow> webhook_config option" where
  "convertSettings dbSettings =
     fold (\<lambda>setting settings.
             settings(ws_webhookType setting \<mapsto>
               \<lparr> enabled = ws_enabled setting,
                 environment = toLowerCase (ws_environment setting) \<rparr>))
          dbSettings Map.empty"

text \<open>\<open>getWebhookSettings\<close>, given what the request to \<open>/api/webhook-settings\<close> gives.\<close>

definition getWebhookSettings ::
  "location \<Rightarrow> webhook_setting list fetched \<Rightarrow> string \<Rightarrow> webhook_config option" where
  "getWebhookSettings loc resp =
     (case resp of
        Ok_body dbSettings \<Rightarrow>
          (let settings = convertSettings dbSettings in
           if isDevelopment loc then settings
           else (\<lambda>key. case settings key of
                   None \<Rightarrow> None
                 | Some setting \<Rightarrow>
                     Some \<lparr> enabled = (enabled setting \<and> environment setting = ''production''),
                            environment = environment setting \<rparr>))
      | Not_ok \<Rightarrow> fallbackSettings loc
      | Fetch_raises \<Rightarrow> fallbackSettings loc)"

text \<open>
  The loop of \<open>sendWebhook\<close>, from a given \<open>retryCount\<close>; the result lists the URLs
  posted to, in order. The settings are read again in each round; \<open>sresp\<close> and \<open>presp\<close>
  give the settings response and the response of the automation endpoint in each round,
  and \<open>log_raises\<close> says whether \<open>logWebhook\<close> raises (it runs inside the \<open>try\<close>, so its
  exception counts as a failed round).
\<close>

function sendWebhookLoop ::
  "location \<Rightarrow> (nat \<Rightarrow> webhook_setting list fetched) \<Rightarrow> (nat \<Rightarrow> unit fetched) \<Rightarrow> bool \<Rightarrow>
   string \<Rightarrow> nat \<Rightarrow> nat \<Rightarrow> string list" where
  "sendWebhookLoop loc sresp presp log_raises eventType maxRetries retryCount =
     (if retryCount \<le> maxRetries then
        (case getWebhookSettings loc (sresp retryCount) eventType of
           None \<Rightarrow> []
         | Some webhookConfig \<Rightarrow>
             if \<not> enabled webhookConfig then []
             else
               (let baseUrl = (if environment webhookConfig = ''production''
                               then ''https://n8n.pmcell.shop/webhook/''
                               else ''https://n8n.pmcell.shop/webhook-test/'');
                    fullUrl = baseUrl @ eventType
                in case presp retryCount of
                     Ok_body u \<Rightarrow>
                       if log_raises
                       then fullUrl # sendWebhookLoop loc sresp presp log_raises eventType
                                        maxRetries (Suc retryCount)
                       else [fullUrl]
                   | Not_ok \<Rightarrow>
                       fullUrl # sendWebhookLoop loc sresp presp log_raises eventType
                                   maxRetries (Suc retryCount)
                   | Fetch_raises \<Rightarrow>
                       fullUrl # sendWebhookLoop loc sresp presp log_raises eventType
                                   maxRetries (Suc retryCount)))
      else [])"
  by pat_completeness auto
termination
  by (relation "measure (\<lambda>(loc, sresp, presp, lg, ev, maxRetries, retryCount).
                            Suc maxRetries - retryCount)") auto

definition sendWebhook ::
  "location \<Rightarrow> (nat \<Rightarrow> webhook_setting list fetched) \<Rightarrow> (nat \<Rightarrow> unit fetched) \<Rightarrow> bool \<Rightarrow>
   string \<Rightarrow> string list" where
  "sendWebhook loc sresp presp log_raises eventType =
     sendWebhookLoop loc sresp presp log_raises eventType 2 0"

section \<open>Periodic global sweep\<close>

text \<open>
  \<open>checkAbandonedCartGlobal\<close>, which works on \<open>localStorage\<close> alone. \<open>settings\<close> is what
  the settings request gives and \<open>post\<close> what the request to the automation endpoint
  gives. Every exception is caught and turns into the result \<open>false\<close>.
\<close>

definition checkAbandonedCartGlobal ::
  "webhook_setting list fetched \<Rightarrow> unit fetched \<Rightarrow> int \<Rightarrow> world \<Rightarrow> bool \<times> world" where
  "checkAbandonedCartGlobal settings post now w =
     (if \<not> window w then (False, w)
      else case ls_cart w of
        None \<Rightarrow> (False, w)
      | Some Empty_string \<Rightarrow> (False, w)
      | Some Malformed \<Rightarrow> (False, w)
      | Some (Json cart) \<Rightarrow>
          (case state_items cart of
             None \<Rightarrow> (False, w)
           | Some its \<Rightarrow>
               if length its = 0 then (False, w)
               else case ls_analytics w of
                 None \<Rightarrow> (False, w)
               | Some Empty_string \<Rightarrow> (False, w)
               | Some Malformed \<Rightarrow> (False, w)
               | Some (Json a) \<Rightarrow>
                   if lastCartActivity a = 0 then (False, w)
                   else
                     (let timeSinceLastCart = now - lastCartActivity a in
                      if timeSinceLastCart \<ge> 1 * 60 * 1000 then
                        (case settings of
                           Fetch_raises \<Rightarrow> (False, w)
                         | Not_ok \<Rightarrow> (False, w)
                         | Ok_body ss \<Rightarrow>
                             (case find (\<lambda>s. ws_webhookType s = ''cartAbandoned'') ss of
                                None \<Rightarrow> (False, w)
                              | Some cartSetting \<Rightarrow>
                                  if \<not> ws_enabled cartSetting then (False, w)
                                  else
                                    (let webhookUrl =
                                           (if ws_environment cartSetting = ''PRODUCTION''
                                            then ''https://n8n.pmcell.shop/webhook/cartAbandoned''
                                            else ''https://n8n.pmcell.shop/webhook-test/cartAbandoned'');
                                         webhookData =
                                           \<lparr> ab_cartItems = removeImagesFromCartItems its,
                                             ab_abandonedAt = now,
                                             ab_timeSinceLastActivity = timeSinceLastCart,
                                             ab_sessionId = sessionId a,
                                             ab_whatsappCollected = whatsappCollected a \<rparr>;
                                         w1 = w\<lparr> sweep_posts :=
                                                   sweep_posts w @ [(webhookUrl, webhookData)] \<rparr>
                                     in case post of
                                          Ok_body u \<Rightarrow>
                                            if ls_full w1 then (False, w1)
                                            else (True,
                                                  w1\<lparr> ls_analytics :=
                                                        Some (Json (a\<lparr> lastCartActivity := 0 \<rparr>)) \<rparr>)
                                        | Not_ok \<Rightarrow> (False, w1)
                                        | Fetch_raises \<Rightarrow> (False, w1))))
                      else (False, w))))"

section \<open>Abandonment checks and what they dispatch\<close>

text \<open>
  The three paths that check for an abandoned cart: the event loop running the armed
  timer, the one-shot check of the constructor, and one round of the periodic sweep
  with the responses it gets.
\<close>

datatype check_path = Timer | Init_check | Sweep "webhook_setting list fetched" "unit fetched"

definition runCheck :: "check_path \<Rightarrow> int \<Rightarrow> world \<Rightarrow> world" where
  "runCheck path now w =
     (case path of
        Timer \<Rightarrow> snd (fireCartAbandonTimer now w)
      | Init_check \<Rightarrow> checkForAbandonedCart now w
      | Sweep settings post \<Rightarrow> snd (checkAbandonedCartGlobal settings post now w))"

text \<open>
  Webhooks dispatched so far: calls of the dispatcher by the singleton, and requests of
  the sweep.
\<close>

definition dispatched :: "world \<Rightarrow> nat" where
  "dispatched w = length (webhooks w) + length (sweep_posts w)"

text \<open>The stored cart parses and has at least one line.\<close>

definition cartNonEmpty :: "world \<Rightarrow> bool" where
  "cartNonEmpty w =
     (window w \<and>
      (case ls_cart w of
         None \<Rightarrow> False
       | Some Empty_string \<Rightarrow> False
       | Some Malformed \<Rightarrow> False
       | Some (Json cart) \<Rightarrow>
           (case state_items cart of None \<Rightarrow> False | Some its \<Rightarrow> its \<noteq> [])))"

text \<open>Cart activity is on record and the idle threshold has passed since.\<close>

definition idleElapsed :: "int \<Rightarrow> UserAnalytics \<Rightarrow> bool" where
  "idleElapsed now a = (0 < lastCartActivity a \<and> CART_ABANDON_TIME \<le> now - lastCartActivity a)"

text \<open>The session that the storage key holds, when it parses.\<close>

definition persisted :: "world \<Rightarrow> UserAnalytics option" where
  "persisted w =
     (case ls_analytics w of
        None \<Rightarrow> None
      | Some Empty_string \<Rightarrow> None
      | Some Malformed \<Rightarrow> None
      | Some (Json a) \<Rightarrow> Some a)"

text \<open>The armed timer is due.\<close>

definition timerDue :: "int \<Rightarrow> world \<Rightarrow> bool" where
  "timerDue now w =
     (case cartAbandonTimer w of None \<Rightarrow> False | Some t \<Rightarrow> set_at t + delay t \<le> now)"

text \<open>
  The settings request succeeds and the first entry for cartAbandoned is enabled, which
  is what the sweep looks at.
\<close>

definition cartAbandonedEnabled :: "webhook_setting list fetched \<Rightarrow> bool" where
  "cartAbandonedEnabled settings =
     (case settings of
        Fetch_raises \<Rightarrow> False
      | Not_ok \<Rightarrow> False
      | Ok_body ss \<Rightarrow>
          (case find (\<lambda>s. ws_webhookType s = ''cartAbandoned'') ss of
             None \<Rightarrow> False
           | Some cartSetting \<Rightarrow> ws_enabled cartSetting))"

section \<open>Example states\<close>

text \<open>A browser tab with empty storage and a session created at time 0.\<close>

definition fresh_tab :: world where
  "fresh_tab =
     \<lparr> analytics = createNewSession ''s1'' 0, cartAbandonTimer = None,
       serverSaveTimeout = None, saveToServerRetryCount = 0, ls_analytics = None,
       ls_cart = None, ls_queue = None, ls_full = False, window = True,
       webhooks = [], sweep_posts = [], cart_pushes = [] \<rparr>"

text \<open>150 add events of one product, one millisecond apart.\<close>

definition calls150 :: "cart_call list" where
  "calls150 =
     map (\<lambda>i. \<lparr> cc_type = Add, cc_productId = ''p1'', cc_quantity = 1,
                 cc_productName = None, cc_unitPrice = Some 10, cc_now = 1000 + int i \<rparr>)
         [0..<150]"

text \<open>
  A session that has visited the category Capas and viewed the products p2 (of Cabos)
  and p1 (of Capas), with nothing in the cart yet.
\<close>

definition viewed_tab :: world where
  "viewed_tab =
     fresh_tab\<lparr> analytics := (createNewSession ''s1'' 0)
       \<lparr> lastActivity := 200, timeOnSite := 200,
         categoriesVisited :=
           [\<lparr> cv_name = ''Capas'', cv_visits = 1, cv_lastVisit = 100,
              cv_hasCartItems = Some False, cv_categoryId = None \<rparr>],
         productsViewed :=
           [\<lparr> pv_id = ''p2'', pv_name = ''Cabo Y'', pv_category = ''Cabos'',
              pv_visits = 1, pv_lastView = 150, pv_addedToCart = Some False \<rparr>,
            \<lparr> pv_id = ''p1'', pv_name = ''Capa X'', pv_category = ''Capas'',
              pv_visits = 1, pv_lastView = 200, pv_addedToCart = Some False \<rparr>] \<rparr> \<rparr>"

text \<open>
  A tab whose cart holds one line and whose last cart activity was at time 1000; the
  stored session is the one in memory.
\<close>

definition cart_of_one :: "cart_doc stored option" where
  "cart_of_one =
     Some (Json (Cart_doc (Some (Cart_state (Some
       [\<lparr> ci_productId = ''p1'', ci_quantity = 2, ci_image = Some ''p1.png'' \<rparr>])))))"

definition active_session :: UserAnalytics where
  "active_session =
     (createNewSession ''s1'' 0)
       \<lparr> lastActivity := 1000, timeOnSite := 1000,
         cartEvents := [cartEventOf Add ''p1'' 2 None (Some 10) 1000],
         lastCartActivity := 1000 \<rparr>"

definition abandoned_tab :: world where
  "abandoned_tab =
     fresh_tab\<lparr> analytics := active_session, ls_analytics := Some (Json active_session),
                ls_cart := cart_of_one \<rparr>"

text \<open>Three sync runs that each end in a network error.\<close>

definition three_failures :: "(sync_response \<times> int) list" where
  "three_failures =
     [(Failed ''TypeError'' ''Failed to fetch'', 10000),
      (Failed ''TypeError'' ''Failed to fetch'', 15000),
      (Failed ''TypeError'' ''Failed to fetch'', 25000)]"

text \<open>
  The production site, and stored webhook settings in which cartAbandoned is enabled
  for the test environment and orderCompleted for production.
\<close>

definition shop_site :: location where
  "shop_site = \<lparr> hostname = ''pmcell.shop'', port = [], nodeEnv = ''production'' \<rparr>"

definition stored_settings :: "webhook_setting list" where
  "stored_settings =
     [\<lparr> ws_webhookType = ''cartAbandoned'', ws_enabled = True, ws_environment = ''TEST'' \<rparr>,
      \<lparr> ws_webhookType = ''orderCompleted'', ws_enabled = True,
        ws_environment = ''PRODUCTION'' \<rparr>]"

text \<open>The tab of \<open>abandoned_tab\<close> with the timer armed by the cart event at time 1000.\<close>

definition armed_tab :: world where
  "armed_tab = abandoned_tab\<lparr> cartAbandonTimer := Some \<lparr> set_at = 1000, delay = 60000 \<rparr> \<rparr>"

text \<open>Stored settings with cartAbandoned enabled for production.\<close>

definition live_settings :: "webhook_setting list fetched" where
  "live_settings =
     Ok_body [\<lparr> ws_webhookType = ''cartAbandoned'', ws_enabled = True,
                ws_environment = ''PRODUCTION'' \<rparr>]"

section \<open>Basic facts\<close>

lemma slice_last_append: "slice_last n (slice_last n xs @ ys) = slice_last n (xs @ ys)"
proof (cases "length xs \<le> n")
  case True
  then show ?thesis by (simp add: slice_last_def)
next
  case False
  then have "length xs + length ys - (length xs - n + n) + (length xs - n)
             = length xs + length ys - n" by arith
  with False show ?thesis by (auto simp: slice_last_def)
qed

lemma length_slice_last: "length (slice_last n xs) \<le> n"
  by (simp add: slice_last_def)

lemma find_update_first:
  "(\<And>x. P x \<Longrightarrow> P (f x)) \<Longrightarrow> find P (update_first P f xs) = map_option f (find P xs)"
  by (induction xs) auto

lemma saveAnalytics_analytics: "analytics (snd (saveAnalytics now w)) = analytics w"
  by (simp add: saveAnalytics_def debouncedServerSave_def)

lemma saveAnalytics_returns:
  "fst (saveAnalytics now w) = (if window w \<and> ls_full w then Some QuotaExceededError else None)"
  by (simp add: saveAnalytics_def)

lemma setupCartAbandonTimer_analytics: "analytics (setupCartAbandonTimer now w) = analytics w"
  by (simp add: setupCartAbandonTimer_def Let_def)

lemma saveCartToServer_analytics: "analytics (saveCartToServer w) = analytics w"
  by (simp add: saveCartToServer_def split: option.splits stored.splits)

section \<open>Cart events\<close>

lemma trackCartEvent_returns:
  "fst (trackCartEvent t p q n u now w) =
     (if window w \<and> ls_full w then Some QuotaExceededError else None)"
  by (simp add: trackCartEvent_def updateLastActivity_def saveAnalytics_def
        debouncedServerSave_def Let_def split: prod.splits)

lemma trackCartEvent_session:
  assumes "trackCartEvent t p q n u now w = (None, w')"
  shows "analytics w' =
     (let a2 = (analytics w)\<lparr> lastActivity := now, timeOnSite := now - startTime (analytics w),
                 cartEvents := cartEvents (analytics w) @ [cartEventOf t p q n u now],
                 lastCartActivity := now \<rparr>;
          a3 = (if t = Add then markAddedToCart p a2 else a2)
      in a3\<lparr> cartEvents := slice_last 100 (cartEvents a3) \<rparr>)"
  using assms
  by (auto simp: trackCartEvent_def updateLastActivity_def saveAnalytics_def
        debouncedServerSave_def setupCartAbandonTimer_analytics saveCartToServer_analytics
        Let_def split: prod.splits if_splits)

lemma markAddedToCart_cartEvents: "cartEvents (markAddedToCart p a) = cartEvents a"
  by (simp add: markAddedToCart_def Let_def split: option.splits)

lemma markAddedToCart_lastCartActivity:
  "lastCartActivity (markAddedToCart p a) = lastCartActivity a"
  by (simp add: markAddedToCart_def Let_def split: option.splits)

lemma trackCartEvent_cartEvents:
  assumes "trackCartEvent t p q n u now w = (None, w')"
  shows "cartEvents (analytics w') =
           slice_last 100 (cartEvents (analytics w) @ [cartEventOf t p q n u now])"
  using trackCartEvent_session [OF assms]
  by (simp add: Let_def markAddedToCart_cartEvents)

lemma trackCartEvent_ls_full: "ls_full (snd (trackCartEvent t p q n u now w)) = ls_full w"
  by (simp add: trackCartEvent_def updateLastActivity_def saveAnalytics_def
        debouncedServerSave_def setupCartAbandonTimer_def saveCartToServer_def Let_def
      split: prod.splits option.splits stored.splits)

lemma trackCartEvents_cartEvents:
  "trackCartEvents calls w = (None, w') \<Longrightarrow> calls \<noteq> [] \<Longrightarrow>
   cartEvents (analytics w') = slice_last 100 (cartEvents (analytics w) @ map eventOfCall calls)"
proof (induction calls arbitrary: w)
  case Nil
  then show ?case by simp
next
  case (Cons c cs)
  from Cons.prems(1) obtain w1 where
    step: "trackCartEvent (cc_type c) (cc_productId c) (cc_quantity c) (cc_productName c)
             (cc_unitPrice c) (cc_now c) w = (None, w1)"
    and rest: "trackCartEvents cs w1 = (None, w')"
    by (auto split: prod.splits option.splits)
  have ev: "cartEvents (analytics w1) = slice_last 100 (cartEvents (analytics w) @ [eventOfCall c])"
    using trackCartEvent_cartEvents [OF step] by (simp add: eventOfCall_def)
  show ?case
  proof (cases "cs = []")
    case True
    with rest ev show ?thesis by simp
  next
    case False
    from Cons.IH [OF rest False] ev show ?thesis
      by (simp add: slice_last_append)
  qed
qed

text \<open>With room in storage (or without \<open>window\<close>) a run of cart events never raises.\<close>

lemma trackCartEvents_returns:
  "\<not> ls_full w \<Longrightarrow> fst (trackCartEvents calls w) = None"
proof (induction calls arbitrary: w)
  case Nil
  then show ?case by simp
next
  case (Cons c cs)
  let ?r = "trackCartEvent (cc_type c) (cc_productId c) (cc_quantity c) (cc_productName c)
              (cc_unitPrice c) (cc_now c) w"
  have "fst ?r = None" using Cons.prems by (simp add: trackCartEvent_returns)
  moreover have "\<not> ls_full (snd ?r)" using Cons.prems by (simp add: trackCartEvent_ls_full)
  ultimately show ?case using Cons.IH [of "snd ?r"]
    by (cases ?r) auto
qed

text \<open>
  A call that raises does so before anything is appended, so the cap, once it holds,
  holds after every call, whether it returns or raises.
\<close>

lemma trackCartEvent_keeps_cap:
  assumes "length (cartEvents (analytics w)) \<le> 100"
  shows "length (cartEvents (analytics (snd (trackCartEvent t p q n u now w)))) \<le> 100"
proof (cases "fst (trackCartEvent t p q n u now w)")
  case None
  then have "trackCartEvent t p q n u now w = (None, snd (trackCartEvent t p q n u now w))"
    by (cases "trackCartEvent t p q n u now w") simp
  from trackCartEvent_cartEvents [OF this] show ?thesis
    by (simp add: length_slice_last)
next
  case (Some e)
  then have "analytics (snd (trackCartEvent t p q n u now w)) =
               (analytics w)\<lparr> lastActivity := now, timeOnSite := now - startTime (analytics w) \<rparr>"
    by (auto simp: trackCartEvent_def updateLastActivity_def saveAnalytics_def
          debouncedServerSave_def Let_def split: prod.splits if_splits option.splits)
  with assms show ?thesis by simp
qed

text \<open>
  Claim C7 (cap of the cart event log). After any non-empty run of \<open>trackCartEvent\<close>
  calls that return, the log is the last 100 entries of the old log followed by the new
  events in call order, so it holds at most 100 entries; after 150 calls it is exactly
  the events of the last 100 calls, oldest first.
\<close>

theorem cart_log_cap:
  assumes "trackCartEvents calls w = (None, w')" and "calls \<noteq> []"
  shows "length (cartEvents (analytics w')) \<le> 100 \<and>
         cartEvents (analytics w') =
           slice_last 100 (cartEvents (analytics w) @ map eventOfCall calls) \<and>
         (length calls = 150 \<longrightarrow> cartEvents (analytics w') = drop 50 (map eventOfCall calls))"
proof -
  have eq: "cartEvents (analytics w') =
              slice_last 100 (cartEvents (analytics w) @ map eventOfCall calls)"
    using trackCartEvents_cartEvents [OF assms] .
  have "length calls = 150 \<Longrightarrow>
          slice_last 100 (cartEvents (analytics w) @ map eventOfCall calls)
          = drop 50 (map eventOfCall calls)"
    by (simp add: slice_last_def)
  with eq show ?thesis by (simp add: length_slice_last)
qed

text \<open>
  Witness for C7: the 150 add events of \<open>calls150\<close> in a fresh tab all return, and the
  log that remains is the events of calls 51 to 150.
\<close>

theorem cart_log_cap_witness:
  "trackCartEvents calls150 fresh_tab = (None, snd (trackCartEvents calls150 fresh_tab)) \<and>
   calls150 \<noteq> [] \<and> length calls150 = 150 \<and>
   length (cartEvents (analytics (snd (trackCartEvents calls150 fresh_tab)))) \<le> 100 \<and>
   cartEvents (analytics (snd (trackCartEvents calls150 fresh_tab))) =
     drop 50 (map eventOfCall calls150)"
proof -
  have full: "\<not> ls_full fresh_tab" by (simp add: fresh_tab_def)
  have run: "trackCartEvents calls150 fresh_tab = (None, snd (trackCartEvents calls150 fresh_tab))"
    using trackCartEvents_returns [OF full, of calls150]
    by (cases "trackCartEvents calls150 fresh_tab") simp
  have len: "length calls150 = 150" by (simp add: calls150_def)
  then have ne: "calls150 \<noteq> []" by auto
  note cap = cart_log_cap [OF run ne]
  from cap have le:
    "length (cartEvents (analytics (snd (trackCartEvents calls150 fresh_tab)))) \<le> 100"
    by blast
  from cap len have eq:
    "cartEvents (analytics (snd (trackCartEvents calls150 fresh_tab))) =
       drop 50 (map eventOfCall calls150)"
    by blast
  from run ne len le eq show ?thesis by blast
qed




lemma markAddedToCart_products:
  "find (\<lambda>v. pv_id v = p) (productsViewed (markAddedToCart p a)) =
     map_option (\<lambda>v. v\<lparr> pv_addedToCart := Some True \<rparr>)
       (find (\<lambda>v. pv_id v = p) (productsViewed a))"
  by (simp add: markAddedToCart_def Let_def find_update_first split: option.splits)

lemma markAddedToCart_categories:
  assumes "find (\<lambda>v. pv_id v = p) (productsViewed a) = Some pv"
  shows "find (\<lambda>c. cv_name c = pv_category pv) (categoriesVisited (markAddedToCart p a)) =
     map_option (\<lambda>c. c\<lparr> cv_hasCartItems := Some True \<rparr>)
       (find (\<lambda>c. cv_name c = pv_category pv) (categoriesVisited a))"
  using assms
  by (simp add: markAddedToCart_def Let_def find_update_first split: option.splits)

text \<open>
  Claim C6 (side effects of an add event). When \<open>trackCartEvent\<close> with type add for the
  product \<open>p\<close> returns, the session's \<open>lastCartActivity\<close> is the time of the call; the
  product view found under the id \<open>p\<close> is the one found before with \<open>addedToCart\<close> set
  to true; and the category visit found under that product view's category is the one
  found before with \<open>hasCartItems\<close> set to true. (Where the session has no such product
  view or category visit there is none afterwards either.)
\<close>

theorem add_event_side_effects:
  assumes "trackCartEvent Add p q n u now w = (None, w')"
  shows "lastCartActivity (analytics w') = now \<and>
         find (\<lambda>v. pv_id v = p) (productsViewed (analytics w')) =
           map_option (\<lambda>v. v\<lparr> pv_addedToCart := Some True \<rparr>)
             (find (\<lambda>v. pv_id v = p) (productsViewed (analytics w))) \<and>
         (\<forall>pv. find (\<lambda>v. pv_id v = p) (productsViewed (analytics w)) = Some pv \<longrightarrow>
            find (\<lambda>c. cv_name c = pv_category pv) (categoriesVisited (analytics w')) =
              map_option (\<lambda>c. c\<lparr> cv_hasCartItems := Some True \<rparr>)
                (find (\<lambda>c. cv_name c = pv_category pv) (categoriesVisited (analytics w))))"
proof -
  let ?a2 = "(analytics w)\<lparr> lastActivity := now, timeOnSite := now - startTime (analytics w),
                 cartEvents := cartEvents (analytics w) @ [cartEventOf Add p q n u now],
                 lastCartActivity := now \<rparr>"
  have a: "analytics w' =
             (markAddedToCart p ?a2)\<lparr> cartEvents := slice_last 100 (cartEvents (markAddedToCart p ?a2)) \<rparr>"
    using trackCartEvent_session [OF assms] by (simp add: Let_def)
  have 1: "lastCartActivity (analytics w') = now"
    by (simp add: a markAddedToCart_lastCartActivity)
  have 2: "find (\<lambda>v. pv_id v = p) (productsViewed (analytics w')) =
           map_option (\<lambda>v. v\<lparr> pv_addedToCart := Some True \<rparr>)
             (find (\<lambda>v. pv_id v = p) (productsViewed (analytics w)))"
    using markAddedToCart_products [of p ?a2] by (simp add: a)
  have 3: "find (\<lambda>c. cv_name c = pv_category pv) (categoriesVisited (analytics w')) =
              map_option (\<lambda>c. c\<lparr> cv_hasCartItems := Some True \<rparr>)
                (find (\<lambda>c. cv_name c = pv_category pv) (categoriesVisited (analytics w)))"
    if "find (\<lambda>v. pv_id v = p) (productsViewed (analytics w)) = Some pv" for pv
    using markAddedToCart_categories [of p ?a2 pv] that by (simp add: a)
  from 1 2 3 show ?thesis by blast
qed


text \<open>
  Witness for C6: adding the viewed product p1 of the visited category Capas flags both.
\<close>

theorem add_event_side_effects_witness:
  "trackCartEvent Add ''p1'' 2 (Some ''Capa X'') (Some 10) 1000 viewed_tab =
     (None, snd (trackCartEvent Add ''p1'' 2 (Some ''Capa X'') (Some 10) 1000 viewed_tab)) \<and>
   lastCartActivity (analytics
     (snd (trackCartEvent Add ''p1'' 2 (Some ''Capa X'') (Some 10) 1000 viewed_tab))) = 1000 \<and>
   find (\<lambda>v. pv_id v = ''p1'') (productsViewed (analytics
     (snd (trackCartEvent Add ''p1'' 2 (Some ''Capa X'') (Some 10) 1000 viewed_tab)))) =
     Some \<lparr> pv_id = ''p1'', pv_name = ''Capa X'', pv_category = ''Capas'',
            pv_visits = 1, pv_lastView = 200, pv_addedToCart = Some True \<rparr> \<and>
   find (\<lambda>c. cv_name c = ''Capas'') (categoriesVisited (analytics
     (snd (trackCartEvent Add ''p1'' 2 (Some ''Capa X'') (Some 10) 1000 viewed_tab)))) =
     Some \<lparr> cv_name = ''Capas'', cv_visits = 1, cv_lastVisit = 100,
            cv_hasCartItems = Some True, cv_categoryId = None \<rparr>"
proof -
  let ?r = "trackCartEvent Add ''p1'' 2 (Some ''Capa X'') (Some 10) 1000 viewed_tab"
  have run: "?r = (None, snd ?r)"
    using trackCartEvent_returns [of Add "''p1''" 2 "Some ''Capa X''" "Some 10" 1000 viewed_tab]
    by (cases ?r) (simp add: viewed_tab_def fresh_tab_def)
  note th = add_event_side_effects [OF run]
  have pv: "find (\<lambda>v. pv_id v = ''p1'') (productsViewed (analytics viewed_tab)) =
              Some \<lparr> pv_id = ''p1'', pv_name = ''Capa X'', pv_category = ''Capas'',
                     pv_visits = 1, pv_lastView = 200, pv_addedToCart = Some False \<rparr>"
    by (simp add: viewed_tab_def fresh_tab_def createNewSession_def)
  have cv: "find (\<lambda>c. cv_name c = ''Capas'') (categoriesVisited (analytics viewed_tab)) =
              Some \<lparr> cv_name = ''Capas'', cv_visits = 1, cv_lastVisit = 100,
                     cv_hasCartItems = Some False, cv_categoryId = None \<rparr>"
    by (simp add: viewed_tab_def fresh_tab_def createNewSession_def)
  from th have 1: "lastCartActivity (analytics (snd ?r)) = 1000" by blast
  from th pv have 2: "find (\<lambda>v. pv_id v = ''p1'') (productsViewed (analytics (snd ?r))) =
     Some \<lparr> pv_id = ''p1'', pv_name = ''Capa X'', pv_category = ''Capas'',
            pv_visits = 1, pv_lastView = 200, pv_addedToCart = Some True \<rparr>"
    by simp
  from th pv cv have 3: "find (\<lambda>c. cv_name c = ''Capas'') (categoriesVisited (analytics (snd ?r))) =
     Some \<lparr> cv_name = ''Capas'', cv_visits = 1, cv_lastVisit = 100,
            cv_hasCartItems = Some True, cv_categoryId = None \<rparr>"
    by simp
  from run 1 2 3 show ?thesis by blast
qed

section \<open>Arming the abandonment timer\<close>









section \<open>Sync retries\<close>

lemma saveToLocalQueue_count:
  "saveToServerRetryCount (saveToLocalQueue now w) = saveToServerRetryCount w"
  by (simp add: saveToLocalQueue_def Let_def split: option.splits stored.splits)

lemma saveToLocalQueue_analytics: "analytics (saveToLocalQueue now w) = analytics w"
  by (simp add: saveToLocalQueue_def Let_def split: option.splits stored.splits)

lemma saveAnalyticsToServer_failed_count:
  "saveToServerRetryCount w < MAX_SERVER_SAVE_RETRIES \<Longrightarrow>
   saveToServerRetryCount (snd (saveAnalyticsToServer (Failed nm msg) now w)) =
     saveToServerRetryCount w + 1"
  by (simp add: saveAnalyticsToServer_def saveToLocalQueue_count Let_def)

lemma saveAnalyticsToServer_analytics:
  "analytics (snd (saveAnalyticsToServer resp now w)) = analytics w"
  by (simp add: saveAnalyticsToServer_def saveToLocalQueue_analytics Let_def
      split: sync_response.splits)

lemma saveAnalyticsToServer_third_failure:
  "saveToServerRetryCount w = 2 \<Longrightarrow>
   saveAnalyticsToServer (Failed nm msg) now w =
     (Queued_after_failure, saveToLocalQueue now (w\<lparr> saveToServerRetryCount := 3 \<rparr>))"
  by (simp add: saveAnalyticsToServer_def MAX_SERVER_SAVE_RETRIES_def Let_def)

lemma saveAnalyticsToServer_at_limit:
  "saveToServerRetryCount w = 3 \<Longrightarrow>
   saveAnalyticsToServer resp now w = (Queued_at_limit, saveToLocalQueue now w)"
  by (simp add: saveAnalyticsToServer_def MAX_SERVER_SAVE_RETRIES_def)

lemma saveToLocalQueue_stores:
  assumes "window w" "\<not> ls_full w" "ls_queue w \<noteq> Some Malformed"
  shows "\<exists>q. ls_queue (saveToLocalQueue now w) = Some (Json q) \<and> q \<noteq> [] \<and>
             last q = \<lparr> qi_sessionId = sessionId (analytics w), qi_timestamp = now,
                        qi_data = analytics w, qi_retries = 0 \<rparr>"
  using assms
  by (auto simp: saveToLocalQueue_def slice_last_def Let_def split: option.splits stored.splits)

lemma saveToLocalQueue_frame:
  "window (saveToLocalQueue now w) = window w \<and> ls_full (saveToLocalQueue now w) = ls_full w \<and>
   (ls_queue w \<noteq> Some Malformed \<longrightarrow> ls_queue (saveToLocalQueue now w) \<noteq> Some Malformed)"
  by (auto simp: saveToLocalQueue_def Let_def split: option.splits stored.splits)

lemma saveAnalyticsToServer_frame:
  "window (snd (saveAnalyticsToServer resp now w)) = window w \<and>
   ls_full (snd (saveAnalyticsToServer resp now w)) = ls_full w \<and>
   (ls_queue w \<noteq> Some Malformed \<longrightarrow>
      ls_queue (snd (saveAnalyticsToServer resp now w)) \<noteq> Some Malformed)"
  using saveToLocalQueue_frame [of now w]
    saveToLocalQueue_frame [of now "w\<lparr> saveToServerRetryCount := saveToServerRetryCount w + 1 \<rparr>"]
  by (auto simp: saveAnalyticsToServer_def Let_def split: sync_response.splits)

text \<open>
  Claim C3, amended. Starting from a retry counter of 0, three consecutive runs that
  fail, whatever the errors, end with the third run handing the snapshot to the local
  queue (when \<open>window\<close> is defined, storage has room and the queue key parses, the
  snapshot is the last queue item, with 0 retries). The counter is then 3 and is not
  reset: every later run, whatever the server would answer, makes no request, goes to
  the queue at once and leaves the counter at 3.
\<close>

theorem sync_retry_ceiling:
  assumes "saveToServerRetryCount w = 0"
    and "syncRuns [(Failed n1 m1, t1), (Failed n2 m2, t2), (Failed n3 m3, t3)] w = (acts, w')"
  shows "length acts = 3 \<and> acts ! 2 = Queued_after_failure \<and>
         saveToServerRetryCount w' = 3 \<and>
         analytics w' = analytics w \<and>
         (window w \<and> \<not> ls_full w \<and> ls_queue w \<noteq> Some Malformed \<longrightarrow>
            (\<exists>q. ls_queue w' = Some (Json q) \<and> q \<noteq> [] \<and>
                 last q = \<lparr> qi_sessionId = sessionId (analytics w), qi_timestamp = t3,
                            qi_data = analytics w, qi_retries = 0 \<rparr>)) \<and>
         (\<forall>resp t. saveAnalyticsToServer resp t w' = (Queued_at_limit, saveToLocalQueue t w') \<and>
                    saveToServerRetryCount (saveToLocalQueue t w') = 3)"
proof -
  let ?r1 = "saveAnalyticsToServer (Failed n1 m1) t1 w"
  let ?w1 = "snd ?r1"
  let ?r2 = "saveAnalyticsToServer (Failed n2 m2) t2 ?w1"
  let ?w2 = "snd ?r2"
  let ?w2' = "?w2\<lparr> saveToServerRetryCount := 3 \<rparr>"
  have c1: "saveToServerRetryCount ?w1 = 1"
    using assms(1) saveAnalyticsToServer_failed_count [of w n1 m1 t1]
    by (simp add: MAX_SERVER_SAVE_RETRIES_def)
  have c2: "saveToServerRetryCount ?w2 = 2"
    using c1 saveAnalyticsToServer_failed_count [of ?w1 n2 m2 t2]
    by (simp add: MAX_SERVER_SAVE_RETRIES_def)
  have r3: "saveAnalyticsToServer (Failed n3 m3) t3 ?w2 =
              (Queued_after_failure, saveToLocalQueue t3 ?w2')"
    using saveAnalyticsToServer_third_failure [OF c2] .
  have run: "syncRuns [(Failed n1 m1, t1), (Failed n2 m2, t2), (Failed n3 m3, t3)] w =
               ([fst ?r1, fst ?r2, Queued_after_failure], saveToLocalQueue t3 ?w2')"
    by (simp add: case_prod_unfold r3)
  with assms(2) have acts: "acts = [fst ?r1, fst ?r2, Queued_after_failure]"
    and w': "w' = saveToLocalQueue t3 ?w2'" by simp_all
  have cnt: "saveToServerRetryCount w' = 3"
    by (simp add: w' saveToLocalQueue_count)
  have an2: "analytics ?w2 = analytics w"
    by (simp add: saveAnalyticsToServer_analytics)
  have an: "analytics w' = analytics w"
    by (simp add: w' saveToLocalQueue_analytics an2)
  have q: "\<exists>q. ls_queue w' = Some (Json q) \<and> q \<noteq> [] \<and>
                 last q = \<lparr> qi_sessionId = sessionId (analytics w), qi_timestamp = t3,
                            qi_data = analytics w, qi_retries = 0 \<rparr>"
    if h: "window w \<and> \<not> ls_full w \<and> ls_queue w \<noteq> Some Malformed"
  proof -
    from h saveAnalyticsToServer_frame [of "Failed n1 m1" t1 w]
    have h1: "window ?w1 \<and> \<not> ls_full ?w1 \<and> ls_queue ?w1 \<noteq> Some Malformed" by simp
    from h1 saveAnalyticsToServer_frame [of "Failed n2 m2" t2 ?w1]
    have h2: "window ?w2 \<and> \<not> ls_full ?w2 \<and> ls_queue ?w2 \<noteq> Some Malformed" by simp
    then have "window ?w2'" "\<not> ls_full ?w2'" "ls_queue ?w2' \<noteq> Some Malformed" by simp_all
    from saveToLocalQueue_stores [OF this, of t3] show ?thesis
      by (simp add: w' an2)
  qed
  have lim: "saveAnalyticsToServer resp t w' = (Queued_at_limit, saveToLocalQueue t w') \<and>
             saveToServerRetryCount (saveToLocalQueue t w') = 3" for resp t
    using saveAnalyticsToServer_at_limit [OF cnt] cnt by (simp add: saveToLocalQueue_count)
  from acts cnt an q lim show ?thesis by auto
qed

text \<open>
  Claim C3 as stated fails: after three network failures in a fresh tab the counter is
  3, not 0, and the next run goes straight to the queue although the server would
  accept the snapshot.
\<close>

theorem retry_counter_not_reset:
  "saveToServerRetryCount fresh_tab = 0 \<and>
   fst (syncRuns three_failures fresh_tab) =
     [Retry_after 5000, Retry_after 10000, Queued_after_failure] \<and>
   saveToServerRetryCount
     (snd (syncRuns three_failures fresh_tab)) = 3 \<and>
   fst (saveAnalyticsToServer Saved 30000
     (snd (syncRuns three_failures fresh_tab))) = Queued_at_limit"
  by (simp add: three_failures_def saveAnalyticsToServer_def saveToLocalQueue_def
        isNetworkError_def isServerError_def MAX_SERVER_SAVE_RETRIES_def slice_last_def
        fresh_tab_def Let_def)

text \<open>Witness for C3: the three network failures of \<open>three_failures\<close> in a fresh tab.\<close>

theorem sync_retry_ceiling_witness:
  "saveToServerRetryCount fresh_tab = 0 \<and>
   length (fst (syncRuns three_failures fresh_tab)) = 3 \<and>
   fst (syncRuns three_failures fresh_tab) ! 2 = Queued_after_failure \<and>
   saveToServerRetryCount (snd (syncRuns three_failures fresh_tab)) = 3 \<and>
   saveAnalyticsToServer Saved 30000 (snd (syncRuns three_failures fresh_tab)) =
     (Queued_at_limit, saveToLocalQueue 30000 (snd (syncRuns three_failures fresh_tab)))"
proof -
  have c0: "saveToServerRetryCount fresh_tab = 0" by (simp add: fresh_tab_def)
  have run: "syncRuns [(Failed ''TypeError'' ''Failed to fetch'', 10000),
                       (Failed ''TypeError'' ''Failed to fetch'', 15000),
                       (Failed ''TypeError'' ''Failed to fetch'', 25000)] fresh_tab =
               (fst (syncRuns three_failures fresh_tab), snd (syncRuns three_failures fresh_tab))"
    by (simp add: three_failures_def)
  from sync_retry_ceiling [OF c0 run] c0 show ?thesis by blast
qed

section \<open>Webhook settings\<close>

lemma find_append:
  "find P (xs @ ys) = (case find P xs of None \<Rightarrow> find P ys | Some x \<Rightarrow> Some x)"
  by (induction xs) auto

lemma convertSettings_fold:
  "fold (\<lambda>setting settings.
             settings(ws_webhookType setting \<mapsto>
               \<lparr> enabled = ws_enabled setting,
                 environment = toLowerCase (ws_environment setting) \<rparr>)) db m key =
     (case find (\<lambda>s. ws_webhookType s = key) (rev db) of
        None \<Rightarrow> m key
      | Some s \<Rightarrow> Some \<lparr> enabled = ws_enabled s,
                          environment = toLowerCase (ws_environment s) \<rparr>)"
  by (induction db arbitrary: m) (auto simp: find_append split: option.splits)

lemma convertSettings_eq:
  "convertSettings db key =
     map_option (\<lambda>s. \<lparr> enabled = ws_enabled s,
                        environment = toLowerCase (ws_environment s) \<rparr>)
       (find (\<lambda>s. ws_webhookType s = key) (rev db))"
  by (simp add: convertSettings_def convertSettings_fold split: option.splits)

lemma getWebhookSettings_production:
  assumes "\<not> isDevelopment loc"
  shows "getWebhookSettings loc (Ok_body db) key =
     map_option (\<lambda>s. \<lparr> enabled = (ws_enabled s \<and> toLowerCase (ws_environment s) = ''production''),
                        environment = toLowerCase (ws_environment s) \<rparr>)
       (find (\<lambda>s. ws_webhookType s = key) (rev db))"
  using assms
  by (simp add: getWebhookSettings_def convertSettings_eq Let_def split: option.splits)

lemma sendWebhook_disabled:
  assumes "getWebhookSettings loc (sresp 0) ev = Some cfg" and "\<not> enabled cfg"
  shows "sendWebhook loc sresp presp lg ev = []"
  using assms by (simp add: sendWebhook_def)

text \<open>
  Claim C9 (production gating). Outside development, when the settings request succeeds,
  the configuration resolved for a webhook type comes from the last stored entry of that
  type and is enabled exactly when that entry is enabled and its environment, in lower
  case, is \<open>production\<close>. So a type stored as enabled for the environment \<open>test\<close> is
  disabled, and \<open>sendWebhook\<close> for it posts nothing.
\<close>

theorem production_gating:
  assumes "\<not> isDevelopment loc"
  shows "getWebhookSettings loc (Ok_body db) key =
     map_option (\<lambda>s. \<lparr> enabled = (ws_enabled s \<and> toLowerCase (ws_environment s) = ''production''),
                        environment = toLowerCase (ws_environment s) \<rparr>)
       (find (\<lambda>s. ws_webhookType s = key) (rev db)) \<and>
     (\<forall>s sresp presp lg.
        sresp 0 = Ok_body db \<longrightarrow> find (\<lambda>s. ws_webhookType s = key) (rev db) = Some s \<longrightarrow>
        ws_enabled s \<longrightarrow> toLowerCase (ws_environment s) = ''test'' \<longrightarrow>
        sendWebhook loc sresp presp lg key = [])"
proof -
  note g = getWebhookSettings_production [OF assms, of db key]
  have "sendWebhook loc sresp presp lg key = []"
    if "sresp 0 = Ok_body db" "find (\<lambda>s. ws_webhookType s = key) (rev db) = Some s"
       "toLowerCase (ws_environment s) = ''test''" for s sresp presp lg
  proof (rule sendWebhook_disabled)
    show "getWebhookSettings loc (sresp 0) key =
            Some \<lparr> enabled = False, environment = ''test'' \<rparr>"
      using g that by simp
  qed simp
  with g show ?thesis by blast
qed

text \<open>
  Witness for C9: on the production site, cartAbandoned stored as enabled for TEST
  resolves to disabled and is not posted; orderCompleted stored as enabled for
  PRODUCTION resolves to enabled.
\<close>

theorem production_gating_witness:
  "\<not> isDevelopment shop_site \<and>
   getWebhookSettings shop_site (Ok_body stored_settings) ''cartAbandoned'' =
     Some \<lparr> enabled = False, environment = ''test'' \<rparr> \<and>
   getWebhookSettings shop_site (Ok_body stored_settings) ''orderCompleted'' =
     Some \<lparr> enabled = True, environment = ''production'' \<rparr> \<and>
   sendWebhook shop_site (\<lambda>i. Ok_body stored_settings) (\<lambda>i. Ok_body ()) False ''cartAbandoned'' = []"
proof -
  have dev: "\<not> isDevelopment shop_site" by (simp add: isDevelopment_def shop_site_def)
  have f1: "find (\<lambda>s. ws_webhookType s = ''cartAbandoned'') (rev stored_settings) =
              Some \<lparr> ws_webhookType = ''cartAbandoned'', ws_enabled = True,
                     ws_environment = ''TEST'' \<rparr>"
    by (simp add: stored_settings_def)
  have f2: "find (\<lambda>s. ws_webhookType s = ''orderCompleted'') (rev stored_settings) =
              Some \<lparr> ws_webhookType = ''orderCompleted'', ws_enabled = True,
                     ws_environment = ''PRODUCTION'' \<rparr>"
    by (simp add: stored_settings_def)
  have l1: "toLowerCase ''TEST'' = ''test''" by (simp add: toLowerCase_def)
  have l2: "toLowerCase ''PRODUCTION'' = ''production''" by (simp add: toLowerCase_def)
  note a = production_gating [OF dev, of stored_settings "''cartAbandoned''"]
  note b = production_gating [OF dev, of stored_settings "''orderCompleted''"]
  from a f1 l1 have 1: "getWebhookSettings shop_site (Ok_body stored_settings) ''cartAbandoned'' =
     Some \<lparr> enabled = False, environment = ''test'' \<rparr>" by simp
  from b f2 l2 have 2: "getWebhookSettings shop_site (Ok_body stored_settings) ''orderCompleted'' =
     Some \<lparr> enabled = True, environment = ''production'' \<rparr>" by simp
  from a f1 l1 have 3:
    "sendWebhook shop_site (\<lambda>i. Ok_body stored_settings) (\<lambda>i. Ok_body ()) False ''cartAbandoned'' = []"
    by simp
  from dev 1 2 3 show ?thesis by blast
qed

section \<open>Abandonment: firing and resetting\<close>

lemma cartNonEmptyE:
  assumes "cartNonEmpty w"
  obtains cart its where "window w" "ls_cart w = Some (Json cart)"
    "state_items cart = Some its" "its \<noteq> []"
  using assms
  by (auto simp: cartNonEmpty_def split: option.splits stored.splits)

lemma persistedE:
  assumes "persisted w = Some a"
  shows "ls_analytics w = Some (Json a)"
  using assms by (auto simp: persisted_def split: option.splits stored.splits)

text \<open>
  With a cart line stored and room in storage, the timer callback hands one
  cartAbandoned webhook to the dispatcher and stores the session with
  \<open>lastCartActivity\<close> reset.
\<close>

lemma cartAbandonTimerCallback_fires:
  assumes "cartNonEmpty w" and "\<not> ls_full w"
  shows "fst (cartAbandonTimerCallback now w) = None \<and>
         length (webhooks (snd (cartAbandonTimerCallback now w))) = length (webhooks w) + 1 \<and>
         fst (last (webhooks (snd (cartAbandonTimerCallback now w)))) = ''cartAbandoned'' \<and>
         sweep_posts (snd (cartAbandonTimerCallback now w)) = sweep_posts w \<and>
         cartAbandonTimer (snd (cartAbandonTimerCallback now w)) = cartAbandonTimer w \<and>
         lastCartActivity (analytics (snd (cartAbandonTimerCallback now w))) = 0 \<and>
         ls_analytics (snd (cartAbandonTimerCallback now w)) =
           Some (Json (analytics (snd (cartAbandonTimerCallback now w))))"
proof -
  from assms(1) obtain cart its where
    "window w" "ls_cart w = Some (Json cart)" "state_items cart = Some its" "its \<noteq> []"
    by (rule cartNonEmptyE)
  with assms(2) show ?thesis
    by (simp add: cartAbandonTimerCallback_def sendCartAbandonedWebhook_def saveAnalytics_def
          debouncedServerSave_def Let_def)
qed

lemma checkForAbandonedCart_fires:
  assumes "cartNonEmpty w" and "\<not> ls_full w" and "idleElapsed now (analytics w)"
  shows "length (webhooks (checkForAbandonedCart now w)) = length (webhooks w) + 1 \<and>
         fst (last (webhooks (checkForAbandonedCart now w))) = ''cartAbandoned'' \<and>
         sweep_posts (checkForAbandonedCart now w) = sweep_posts w \<and>
         cartAbandonTimer (checkForAbandonedCart now w) = cartAbandonTimer w \<and>
         lastCartActivity (analytics (checkForAbandonedCart now w)) = 0 \<and>
         ls_analytics (checkForAbandonedCart now w) =
           Some (Json (analytics (checkForAbandonedCart now w)))"
proof -
  from assms(1) obtain cart its where
    "window w" "ls_cart w = Some (Json cart)" "state_items cart = Some its" "its \<noteq> []"
    by (rule cartNonEmptyE)
  with assms(2,3) show ?thesis
    by (simp add: checkForAbandonedCart_def sendCartAbandonedWebhook_def saveAnalytics_def
          debouncedServerSave_def idleElapsed_def Let_def)
qed

lemma checkForAbandonedCart_idle:
  "lastCartActivity (analytics w) = 0 \<Longrightarrow> checkForAbandonedCart now w = w"
  by (simp add: checkForAbandonedCart_def split: option.splits stored.splits)

lemma checkAbandonedCartGlobal_idle:
  "ls_analytics w = Some (Json a) \<Longrightarrow> lastCartActivity a = 0 \<Longrightarrow>
   checkAbandonedCartGlobal settings post now w = (False, w)"
  by (simp add: checkAbandonedCartGlobal_def split: option.splits stored.splits)

lemma fireCartAbandonTimer_none:
  "cartAbandonTimer w = None \<Longrightarrow> fireCartAbandonTimer now w = (None, w)"
  by (simp add: fireCartAbandonTimer_def)

text \<open>
  With \<open>lastCartActivity\<close> 0 in memory and in storage and no timer pending, no check does
  anything.
\<close>

lemma runCheck_idle:
  assumes "lastCartActivity (analytics w) = 0" and "cartAbandonTimer w = None"
    and "ls_analytics w = Some (Json (analytics w))"
  shows "runCheck path now w = w"
  using assms
  by (cases path)
     (simp_all add: runCheck_def checkForAbandonedCart_idle fireCartAbandonTimer_none
        checkAbandonedCartGlobal_idle [of w "analytics w"])


text \<open>The sweep touches the stored session and its own requests, nothing else.\<close>

lemma sweep_changes_only:
  "snd (checkAbandonedCartGlobal settings post now w) =
     w\<lparr> ls_analytics := ls_analytics (snd (checkAbandonedCartGlobal settings post now w)),
        sweep_posts := sweep_posts (snd (checkAbandonedCartGlobal settings post now w)) \<rparr>"
  by (simp add: checkAbandonedCartGlobal_def Let_def
      split: option.splits stored.splits fetched.splits)

lemma sweep_false_keeps_session:
  "\<not> fst (checkAbandonedCartGlobal settings post now w) \<Longrightarrow>
   ls_analytics (snd (checkAbandonedCartGlobal settings post now w)) = ls_analytics w"
  by (simp add: checkAbandonedCartGlobal_def Let_def
      split: option.splits stored.splits fetched.splits if_splits)

lemma sweep_true_only_on_delivery:
  "fst (checkAbandonedCartGlobal settings post now w) \<Longrightarrow>
   post = Ok_body () \<and> cartAbandonedEnabled settings \<and>
   map_option lastCartActivity (persisted (snd (checkAbandonedCartGlobal settings post now w)))
     = Some 0"
  by (auto simp: checkAbandonedCartGlobal_def cartAbandonedEnabled_def persisted_def Let_def
      split: option.splits stored.splits fetched.splits if_splits)

lemma sweep_fires:
  assumes "cartNonEmpty w" and "persisted w = Some a" and "idleElapsed now a"
    and "cartAbandonedEnabled settings"
  shows "length (sweep_posts (snd (checkAbandonedCartGlobal settings post now w))) =
           length (sweep_posts w) + 1 \<and>
         webhooks (snd (checkAbandonedCartGlobal settings post now w)) = webhooks w \<and>
         (if post = Ok_body () \<and> \<not> ls_full w
          then fst (checkAbandonedCartGlobal settings post now w) \<and>
               ls_analytics (snd (checkAbandonedCartGlobal settings post now w)) =
                 Some (Json (a\<lparr> lastCartActivity := 0 \<rparr>))
          else \<not> fst (checkAbandonedCartGlobal settings post now w) \<and>
               ls_analytics (snd (checkAbandonedCartGlobal settings post now w)) = ls_analytics w)"
proof -
  from assms(1) obtain cart its where
    c: "window w" "ls_cart w = Some (Json cart)" "state_items cart = Some its" "its \<noteq> []"
    by (rule cartNonEmptyE)
  from assms(2) have a: "ls_analytics w = Some (Json a)" by (rule persistedE)
  from assms(4) obtain ss cs where
    s: "settings = Ok_body ss" "find (\<lambda>s. ws_webhookType s = ''cartAbandoned'') ss = Some cs"
       "ws_enabled cs"
    by (auto simp: cartAbandonedEnabled_def split: fetched.splits option.splits)
  from assms(3) have i: "lastCartActivity a \<noteq> 0" "60000 \<le> now - lastCartActivity a"
    by (simp_all add: idleElapsed_def CART_ABANDON_TIME_def)
  show ?thesis
    using c a s i
    by (cases post) (simp_all add: checkAbandonedCartGlobal_def Let_def)
qed

text \<open>
  Claim C10 (the sweep resets only on delivery). The sweep returns true only when the
  request to the automation endpoint returns a success status for an enabled
  cartAbandoned setting, and the stored \<open>lastCartActivity\<close> is then 0. When the settings
  request fails, the type is disabled or the request fails, the sweep returns false and
  the stored session is unchanged; in every case nothing but the stored session and the
  list of sweep requests changes. After a sweep that returned false on an expired
  session with a cart, a later sweep that finds the webhook enabled sends a request
  again. The timer callback always leaves \<open>lastCartActivity\<close> 0 in memory, and so does
  the initialization check when it finds a cart and the threshold passed; neither awaits
  or reads the outcome of the delivery.
\<close>

theorem sweep_resets_only_on_delivery:
  "(fst (checkAbandonedCartGlobal settings post now w) \<longrightarrow>
      post = Ok_body () \<and> cartAbandonedEnabled settings \<and>
      map_option lastCartActivity
        (persisted (snd (checkAbandonedCartGlobal settings post now w))) = Some 0) \<and>
   (\<not> cartAbandonedEnabled settings \<or> post \<noteq> Ok_body () \<longrightarrow>
      \<not> fst (checkAbandonedCartGlobal settings post now w) \<and>
      ls_analytics (snd (checkAbandonedCartGlobal settings post now w)) = ls_analytics w) \<and>
   snd (checkAbandonedCartGlobal settings post now w) =
     w\<lparr> ls_analytics := ls_analytics (snd (checkAbandonedCartGlobal settings post now w)),
        sweep_posts := sweep_posts (snd (checkAbandonedCartGlobal settings post now w)) \<rparr> \<and>
   (\<forall>a settings' post' now'.
      cartNonEmpty w \<and> persisted w = Some a \<and> idleElapsed now a \<and>
      \<not> fst (checkAbandonedCartGlobal settings post now w) \<and>
      now \<le> now' \<and> cartAbandonedEnabled settings' \<longrightarrow>
      length (sweep_posts (snd (checkAbandonedCartGlobal settings' post' now'
                (snd (checkAbandonedCartGlobal settings post now w))))) =
        length (sweep_posts (snd (checkAbandonedCartGlobal settings post now w))) + 1) \<and>
   lastCartActivity (analytics (snd (cartAbandonTimerCallback now w))) = 0 \<and>
   (cartNonEmpty w \<and> idleElapsed now (analytics w) \<longrightarrow>
      lastCartActivity (analytics (checkForAbandonedCart now w)) = 0)"
proof -
  let ?r = "checkAbandonedCartGlobal settings post now w"
  have 1: "fst ?r \<longrightarrow> post = Ok_body () \<and> cartAbandonedEnabled settings \<and>
             map_option lastCartActivity (persisted (snd ?r)) = Some 0"
    using sweep_true_only_on_delivery by blast
  have 2: "\<not> cartAbandonedEnabled settings \<or> post \<noteq> Ok_body () \<longrightarrow>
             \<not> fst ?r \<and> ls_analytics (snd ?r) = ls_analytics w"
    using 1 sweep_false_keeps_session [of settings post now w] by blast
  have 3: "snd ?r = w\<lparr> ls_analytics := ls_analytics (snd ?r), sweep_posts := sweep_posts (snd ?r) \<rparr>"
    by (rule sweep_changes_only)
  have 4: "length (sweep_posts (snd (checkAbandonedCartGlobal settings' post' now' (snd ?r)))) =
             length (sweep_posts (snd ?r)) + 1"
    if h: "cartNonEmpty w \<and> persisted w = Some a \<and> idleElapsed now a \<and> \<not> fst ?r \<and>
           now \<le> now' \<and> cartAbandonedEnabled settings'" for a settings' post' now'
  proof -
    from h have keep: "ls_analytics (snd ?r) = ls_analytics w"
      using sweep_false_keeps_session by blast
    have frame: "window (snd ?r) = window w \<and> ls_cart (snd ?r) = ls_cart w"
      by (subst 3, simp)+
    from h frame have ne: "cartNonEmpty (snd ?r)" by (simp add: cartNonEmpty_def)
    from h keep have pe: "persisted (snd ?r) = Some a" by (simp add: persisted_def)
    from h have idle: "idleElapsed now' a" by (simp add: idleElapsed_def)
    from h have en: "cartAbandonedEnabled settings'" by simp
    from sweep_fires [OF ne pe idle en, of post'] show ?thesis by simp
  qed
  have 5: "lastCartActivity (analytics (snd (cartAbandonTimerCallback now w))) = 0"
    by (simp add: cartAbandonTimerCallback_def saveAnalytics_def debouncedServerSave_def Let_def)
  have 6: "cartNonEmpty w \<and> idleElapsed now (analytics w) \<longrightarrow>
             lastCartActivity (analytics (checkForAbandonedCart now w)) = 0"
    by (auto simp: checkForAbandonedCart_def cartNonEmpty_def idleElapsed_def
          saveAnalytics_def debouncedServerSave_def Let_def
        split: option.splits stored.splits)
  from 1 2 3 4 5 6 show ?thesis by blast
qed


lemma abandoned_tab_facts:
  "cartNonEmpty abandoned_tab" "\<not> ls_full abandoned_tab"
  "persisted abandoned_tab = Some active_session" "analytics abandoned_tab = active_session"
  "cartAbandonTimer abandoned_tab = None" "dispatched abandoned_tab = 0"
  "idleElapsed 100000 active_session" "idleElapsed 61000 active_session"
  "cartAbandonedEnabled live_settings"
  by (simp_all add: cartNonEmpty_def persisted_def dispatched_def idleElapsed_def
        cartAbandonedEnabled_def live_settings_def abandoned_tab_def fresh_tab_def
        active_session_def createNewSession_def cart_of_one_def state_items_def
        CART_ABANDON_TIME_def)

lemma armed_tab_facts:
  "cartNonEmpty armed_tab" "\<not> ls_full armed_tab" "analytics armed_tab = active_session"
  "timerDue 61000 armed_tab" "dispatched armed_tab = 0"
  "persisted armed_tab = Some active_session"
  using abandoned_tab_facts
  by (simp_all add: armed_tab_def cartNonEmpty_def timerDue_def dispatched_def persisted_def)

text \<open>
  Witness for C10: in \<open>abandoned_tab\<close> at time 100000 a sweep whose request is refused
  returns false and keeps the stored session, and the sweep 30 s later sends again; a
  sweep whose request succeeds returns true and stores \<open>lastCartActivity\<close> 0; the timer
  callback and the initialization check reset it in memory.
\<close>

theorem sweep_resets_only_on_delivery_witness:
  "cartNonEmpty abandoned_tab \<and> persisted abandoned_tab = Some active_session \<and>
   idleElapsed 100000 active_session \<and> cartAbandonedEnabled live_settings \<and>
   \<not> fst (checkAbandonedCartGlobal live_settings Not_ok 100000 abandoned_tab) \<and>
   ls_analytics (snd (checkAbandonedCartGlobal live_settings Not_ok 100000 abandoned_tab)) =
     ls_analytics abandoned_tab \<and>
   length (sweep_posts (snd (checkAbandonedCartGlobal live_settings (Ok_body ()) 130000
      (snd (checkAbandonedCartGlobal live_settings Not_ok 100000 abandoned_tab))))) =
     length (sweep_posts (snd (checkAbandonedCartGlobal live_settings Not_ok 100000
       abandoned_tab))) + 1 \<and>
   fst (checkAbandonedCartGlobal live_settings (Ok_body ()) 100000 abandoned_tab) \<and>
   map_option lastCartActivity
     (persisted (snd (checkAbandonedCartGlobal live_settings (Ok_body ()) 100000 abandoned_tab)))
     = Some 0 \<and>
   lastCartActivity (analytics (snd (cartAbandonTimerCallback 100000 abandoned_tab))) = 0 \<and>
   lastCartActivity (analytics (checkForAbandonedCart 100000 abandoned_tab)) = 0"
proof -
  note f = abandoned_tab_facts
  note a = sweep_resets_only_on_delivery [of live_settings Not_ok 100000 abandoned_tab]
  note b = sweep_resets_only_on_delivery [of live_settings "Ok_body ()" 100000 abandoned_tab]
  have ok: "fst (checkAbandonedCartGlobal live_settings (Ok_body ()) 100000 abandoned_tab)"
    by (simp add: checkAbandonedCartGlobal_def live_settings_def abandoned_tab_def
          fresh_tab_def active_session_def createNewSession_def cart_of_one_def
          state_items_def Let_def)
  from a have 1: "\<not> fst (checkAbandonedCartGlobal live_settings Not_ok 100000 abandoned_tab)"
    and 2: "ls_analytics (snd (checkAbandonedCartGlobal live_settings Not_ok 100000 abandoned_tab))
              = ls_analytics abandoned_tab"
    by simp_all
  from a f 1 have 3:
    "length (sweep_posts (snd (checkAbandonedCartGlobal live_settings (Ok_body ()) 130000
        (snd (checkAbandonedCartGlobal live_settings Not_ok 100000 abandoned_tab))))) =
     length (sweep_posts (snd (checkAbandonedCartGlobal live_settings Not_ok 100000
        abandoned_tab))) + 1"
    by simp
  from b ok have 4: "map_option lastCartActivity
     (persisted (snd (checkAbandonedCartGlobal live_settings (Ok_body ()) 100000 abandoned_tab)))
     = Some 0" by blast
  from a have 5: "lastCartActivity (analytics (snd (cartAbandonTimerCallback 100000 abandoned_tab))) = 0"
    by blast
  from a f have 6: "lastCartActivity (analytics (checkForAbandonedCart 100000 abandoned_tab)) = 0"
    by simp
  from f 1 2 3 ok 4 5 6 show ?thesis by blast
qed

text \<open>
  Claim C1 as stated fails on the sweep path: in \<open>abandoned_tab\<close> (cart stored, last
  cart activity 99 s ago, stored session equal to the one in memory) a sweep whose
  request is refused sends one request, leaves \<open>lastCartActivity\<close> at 1000 in storage
  and in memory, and the sweep run right after it sends a second request.
\<close>

theorem failed_sweep_fires_again:
  "cartNonEmpty abandoned_tab \<and> \<not> ls_full abandoned_tab \<and>
   lastCartActivity (analytics abandoned_tab) = 1000 \<and>
   persisted abandoned_tab = Some (analytics abandoned_tab) \<and>
   idleElapsed 100000 (analytics abandoned_tab) \<and>
   dispatched abandoned_tab = 0 \<and>
   dispatched (runCheck (Sweep live_settings Not_ok) 100000 abandoned_tab) = 1 \<and>
   map_option lastCartActivity
     (persisted (runCheck (Sweep live_settings Not_ok) 100000 abandoned_tab)) = Some 1000 \<and>
   lastCartActivity (analytics (runCheck (Sweep live_settings Not_ok) 100000 abandoned_tab))
     = 1000 \<and>
   dispatched (runCheck (Sweep live_settings (Ok_body ())) 100000
                (runCheck (Sweep live_settings Not_ok) 100000 abandoned_tab)) = 2"
  by (simp add: runCheck_def checkAbandonedCartGlobal_def dispatched_def persisted_def
        cartNonEmpty_def idleElapsed_def CART_ABANDON_TIME_def live_settings_def
        abandoned_tab_def fresh_tab_def active_session_def createNewSession_def
        cart_of_one_def state_items_def Let_def)

text \<open>
  The sweep resets the stored copy only: after a delivered sweep the session in memory
  still has its \<open>lastCartActivity\<close>, and the armed timer, when it runs next, hands a
  second webhook to the dispatcher.
\<close>

lemma sweep_then_timer_dispatches_twice:
  "dispatched armed_tab = 0 \<and>
   dispatched (runCheck (Sweep live_settings (Ok_body ())) 61000 armed_tab) = 1 \<and>
   map_option lastCartActivity
     (persisted (runCheck (Sweep live_settings (Ok_body ())) 61000 armed_tab)) = Some 0 \<and>
   lastCartActivity (analytics (runCheck (Sweep live_settings (Ok_body ())) 61000 armed_tab))
     = 1000 \<and>
   dispatched (runCheck Timer 61000
                (runCheck (Sweep live_settings (Ok_body ())) 61000 armed_tab)) = 2"
  by (simp add: runCheck_def checkAbandonedCartGlobal_def fireCartAbandonTimer_def
        cartAbandonTimerCallback_def sendCartAbandonedWebhook_def saveAnalytics_def
        debouncedServerSave_def dispatched_def persisted_def live_settings_def
        armed_tab_def abandoned_tab_def fresh_tab_def active_session_def
        createNewSession_def cart_of_one_def state_items_def Let_def)

lemma timer_path_fires_once:
  assumes "cartNonEmpty w" and "\<not> ls_full w" and "timerDue now w"
  shows "dispatched (runCheck Timer now w) = dispatched w + 1 \<and>
         lastCartActivity (analytics (runCheck Timer now w)) = 0 \<and>
         persisted (runCheck Timer now w) = Some (analytics (runCheck Timer now w)) \<and>
         (\<forall>next now'. runCheck next now' (runCheck Timer now w) = runCheck Timer now w)"
proof -
  let ?w0 = "w\<lparr> cartAbandonTimer := None \<rparr>"
  from assms(3) have run: "runCheck Timer now w = snd (cartAbandonTimerCallback now ?w0)"
    by (auto simp: runCheck_def fireCartAbandonTimer_def timerDue_def split: option.splits)
  from assms(1,2) have "cartNonEmpty ?w0" "\<not> ls_full ?w0" by (simp_all add: cartNonEmpty_def)
  note cb = cartAbandonTimerCallback_fires [OF this, of now]
  from cb have d: "dispatched (runCheck Timer now w) = dispatched w + 1"
    by (simp add: run dispatched_def)
  from cb have l: "lastCartActivity (analytics (runCheck Timer now w)) = 0"
    by (simp add: run)
  from cb have s: "ls_analytics (runCheck Timer now w) = Some (Json (analytics (runCheck Timer now w)))"
    by (simp add: run)
  from cb have t: "cartAbandonTimer (runCheck Timer now w) = None"
    by (simp add: run)
  from s have p: "persisted (runCheck Timer now w) = Some (analytics (runCheck Timer now w))"
    by (simp add: persisted_def)
  from runCheck_idle [OF l t s] d l p show ?thesis by blast
qed

lemma init_path_fires_once:
  assumes "cartNonEmpty w" and "\<not> ls_full w" and "idleElapsed now (analytics w)"
    and "cartAbandonTimer w = None"
  shows "dispatched (runCheck Init_check now w) = dispatched w + 1 \<and>
         lastCartActivity (analytics (runCheck Init_check now w)) = 0 \<and>
         persisted (runCheck Init_check now w) = Some (analytics (runCheck Init_check now w)) \<and>
         (\<forall>next now'. runCheck next now' (runCheck Init_check now w) = runCheck Init_check now w)"
proof -
  have run: "runCheck Init_check now w = checkForAbandonedCart now w"
    by (simp add: runCheck_def)
  note cb = checkForAbandonedCart_fires [OF assms(1,2,3)]
  from cb have d: "dispatched (runCheck Init_check now w) = dispatched w + 1"
    by (simp add: run dispatched_def)
  from cb have l: "lastCartActivity (analytics (runCheck Init_check now w)) = 0"
    by (simp add: run)
  from cb have s: "ls_analytics (runCheck Init_check now w) =
                     Some (Json (analytics (runCheck Init_check now w)))"
    by (simp add: run)
  from cb assms(4) have t: "cartAbandonTimer (runCheck Init_check now w) = None"
    by (simp add: run)
  from s have p: "persisted (runCheck Init_check now w) = Some (analytics (runCheck Init_check now w))"
    by (simp add: persisted_def)
  from runCheck_idle [OF l t s] d l p show ?thesis by blast
qed

lemma sweep_path_fires_once:
  assumes "cartNonEmpty w" and "\<not> ls_full w" and "persisted w = Some a"
    and "idleElapsed now a" and "cartAbandonedEnabled settings"
  shows "dispatched (runCheck (Sweep settings post) now w) = dispatched w + 1 \<and>
         (post = Ok_body () \<longrightarrow>
            map_option lastCartActivity (persisted (runCheck (Sweep settings post) now w)) = Some 0 \<and>
            (\<forall>settings' post' now'.
               runCheck (Sweep settings' post') now' (runCheck (Sweep settings post) now w) =
               runCheck (Sweep settings post) now w))"
proof -
  let ?r = "checkAbandonedCartGlobal settings post now w"
  have run: "runCheck (Sweep settings post) now w = snd ?r" by (simp add: runCheck_def)
  note sw = sweep_fires [OF assms(1,3,4,5), of post]
  from sw have d: "dispatched (runCheck (Sweep settings post) now w) = dispatched w + 1"
    by (simp add: run dispatched_def)
  have "map_option lastCartActivity (persisted (snd ?r)) = Some 0 \<and>
        (\<forall>settings' post' now'.
           snd (checkAbandonedCartGlobal settings' post' now' (snd ?r)) = snd ?r)"
    if "post = Ok_body ()"
  proof -
    from sw that assms(2) have st: "ls_analytics (snd ?r) = Some (Json (a\<lparr> lastCartActivity := 0 \<rparr>))"
      by simp
    then have 1: "map_option lastCartActivity (persisted (snd ?r)) = Some 0"
      by (simp add: persisted_def)
    from checkAbandonedCartGlobal_idle [OF st] have
      "snd (checkAbandonedCartGlobal settings' post' now' (snd ?r)) = snd ?r"
      for settings' post' now' by simp
    with 1 show ?thesis by blast
  qed
  with d show ?thesis by (simp add: run runCheck_def)
qed

text \<open>
  Claim C1, amended. Take a stored cart with at least one line and storage with room.
  If the session in memory has cart activity on record and the threshold has passed,
  then the armed timer (when due) and the initialization check (run, as in the
  constructor, with no timer pending) each hand exactly one webhook to the dispatcher,
  reset \<open>lastCartActivity\<close> to 0 in memory and in storage, and leave a state in which no
  check of any path, at any time, does anything. If the stored session has cart
  activity on record with the threshold passed and the settings enable cartAbandoned,
  the sweep sends exactly one request; if that request succeeds, the stored
  \<open>lastCartActivity\<close> is 0 and no later sweep does anything.
\<close>

theorem abandonment_fires_once:
  assumes "cartNonEmpty w" and "\<not> ls_full w"
  shows "(idleElapsed now (analytics w) \<and>
          (path = Timer \<and> timerDue now w \<or> path = Init_check \<and> cartAbandonTimer w = None) \<longrightarrow>
            dispatched (runCheck path now w) = dispatched w + 1 \<and>
            lastCartActivity (analytics (runCheck path now w)) = 0 \<and>
            persisted (runCheck path now w) = Some (analytics (runCheck path now w)) \<and>
            (\<forall>next now'. runCheck next now' (runCheck path now w) = runCheck path now w)) \<and>
         (\<forall>a. persisted w = Some a \<and> idleElapsed now a \<and> cartAbandonedEnabled settings \<longrightarrow>
            dispatched (runCheck (Sweep settings post) now w) = dispatched w + 1 \<and>
            (post = Ok_body () \<longrightarrow>
               map_option lastCartActivity
                 (persisted (runCheck (Sweep settings post) now w)) = Some 0 \<and>
               (\<forall>settings' post' now'.
                  runCheck (Sweep settings' post') now' (runCheck (Sweep settings post) now w) =
                  runCheck (Sweep settings post) now w)))"
  using timer_path_fires_once [OF assms, of now] init_path_fires_once [OF assms, of now]
    sweep_path_fires_once [OF assms, of _ now settings post]
  by blast


text \<open>
  Witness for C1: the due timer of \<open>armed_tab\<close>, the initialization check and a
  delivered sweep of \<open>abandoned_tab\<close> each dispatch once, and a sweep after each of them
  dispatches nothing more.
\<close>

theorem abandonment_fires_once_witness:
  "cartNonEmpty armed_tab \<and> \<not> ls_full armed_tab \<and>
   idleElapsed 61000 (analytics armed_tab) \<and> timerDue 61000 armed_tab \<and>
   dispatched (runCheck Timer 61000 armed_tab) = 1 \<and>
   lastCartActivity (analytics (runCheck Timer 61000 armed_tab)) = 0 \<and>
   dispatched (runCheck (Sweep live_settings (Ok_body ())) 61000
                (runCheck Timer 61000 armed_tab)) = 1 \<and>
   cartNonEmpty abandoned_tab \<and> \<not> ls_full abandoned_tab \<and>
   cartAbandonTimer abandoned_tab = None \<and> idleElapsed 100000 (analytics abandoned_tab) \<and>
   dispatched (runCheck Init_check 100000 abandoned_tab) = 1 \<and>
   dispatched (runCheck (Sweep live_settings (Ok_body ())) 100000
                (runCheck Init_check 100000 abandoned_tab)) = 1 \<and>
   persisted abandoned_tab = Some active_session \<and> cartAbandonedEnabled live_settings \<and>
   dispatched (runCheck (Sweep live_settings (Ok_body ())) 100000 abandoned_tab) = 1 \<and>
   dispatched (runCheck (Sweep live_settings (Ok_body ())) 130000
                (runCheck (Sweep live_settings (Ok_body ())) 100000 abandoned_tab)) = 1"
proof -
  note f = abandoned_tab_facts
  note g = armed_tab_facts
  note t = abandonment_fires_once [OF g(1,2), of 61000 Timer live_settings "Ok_body ()"]
  note i = abandonment_fires_once [OF f(1,2), of 100000 Init_check live_settings "Ok_body ()"]
  from t g f have t1: "dispatched (runCheck Timer 61000 armed_tab) = 1"
    and t2: "lastCartActivity (analytics (runCheck Timer 61000 armed_tab)) = 0"
    and t3: "runCheck (Sweep live_settings (Ok_body ())) 61000 (runCheck Timer 61000 armed_tab)
               = runCheck Timer 61000 armed_tab"
    by simp_all
  from i f have i1: "dispatched (runCheck Init_check 100000 abandoned_tab) = 1"
    and i3: "runCheck (Sweep live_settings (Ok_body ())) 100000
               (runCheck Init_check 100000 abandoned_tab) = runCheck Init_check 100000 abandoned_tab"
    by simp_all
  from i f have s1: "dispatched (runCheck (Sweep live_settings (Ok_body ())) 100000 abandoned_tab) = 1"
    and s3: "runCheck (Sweep live_settings (Ok_body ())) 130000
               (runCheck (Sweep live_settings (Ok_body ())) 100000 abandoned_tab) =
             runCheck (Sweep live_settings (Ok_body ())) 100000 abandoned_tab"
    by simp_all
  from g f t1 t2 t3 i1 i3 s1 s3 show ?thesis by simp
qed

section \<open>Loading and persisting\<close>

text \<open>
  Without \<open>window\<close>, with the key missing or empty, or with a stored session whose
  last activity is more than 24 hours old, loading gives a fresh session; a stored
  session that is recent is returned as it is.
\<close>

lemma loadAnalytics_fresh:
  assumes "\<not> window w \<or> ls_analytics w = None \<or> ls_analytics w = Some Empty_string \<or>
           (\<exists>a. ls_analytics w = Some (Json a) \<and> now - lastActivity a > 24 * 60 * 60 * 1000)"
  shows "loadAnalytics sid now w = Inr (createNewSession sid now)"
  using assms by (auto simp: loadAnalytics_def)

lemma loadAnalytics_recent:
  assumes "window w" and "ls_analytics w = Some (Json a)"
    and "now - lastActivity a \<le> 24 * 60 * 60 * 1000"
  shows "loadAnalytics sid now w = Inr a"
  using assms by (auto simp: loadAnalytics_def)

text \<open>
  Claim C4 at its failing input: with a stored session text that does not parse,
  \<open>loadAnalytics\<close> raises the \<open>SyntaxError\<close> of \<open>JSON.parse\<close>, the constructor raises
  with it, and \<open>useAnalytics\<close> hands out the object of no-op methods instead of an
  instance with a fresh session.
\<close>

theorem corrupt_storage_raises:
  "loadAnalytics ''s2'' 5000 (fresh_tab\<lparr> ls_analytics := Some Malformed \<rparr>) = Inl SyntaxError \<and>
   fst (newAnalytics ''s2'' 5000 (fresh_tab\<lparr> ls_analytics := Some Malformed \<rparr>))
     = Some SyntaxError \<and>
   useAnalytics ''s2'' 5000 (fresh_tab\<lparr> ls_analytics := Some Malformed \<rparr>) = Mock"
  by (simp add: loadAnalytics_def newAnalytics_def useAnalytics_def fresh_tab_def)

text \<open>
  Claim C5 at its failing input: when \<open>localStorage.setItem\<close> raises, the exception of
  the write in \<open>saveAnalytics\<close> reaches the caller of each recorder.
\<close>

theorem full_storage_raises:
  "fst (trackCategoryVisit ''Capas'' None 1000 (fresh_tab\<lparr> ls_full := True \<rparr>))
     = Some QuotaExceededError \<and>
   fst (trackProductView ''p1'' ''Capa'' ''Capas'' 1000 (fresh_tab\<lparr> ls_full := True \<rparr>))
     = Some QuotaExceededError \<and>
   fst (trackCartEvent Add ''p1'' 1 None None 1000 (fresh_tab\<lparr> ls_full := True \<rparr>))
     = Some QuotaExceededError"
  by (simp add: trackCategoryVisit_def trackProductView_def trackCartEvent_def
        updateLastActivity_def saveAnalytics_def fresh_tab_def)

end
